theory Spec2Isabelle
  imports Main "HOL-Library.Sublist"
begin

section \<open>Service control with smart service-name discovery\<close>

text \<open>
  A shallow embedding of the Go package \<^verbatim>\<open>systemctl\<close>: the name resolver
  (\<^verbatim>\<open>smartServiceName\<close> and its helpers), the alias table and its persistence, the
  existence and discovery caches, the status parsers of the three init-system managers
  and the public facade (\<^verbatim>\<open>Start\<close>, \<^verbatim>\<open>Stop\<close>, \<^verbatim>\<open>Restart\<close>, \<^verbatim>\<open>Enable\<close>,
  \<^verbatim>\<open>Disable\<close>).

  Go strings are byte sequences, and so are HOL strings. Package-level variables become
  the fields of one state record that every operation takes and returns. Everything the
  code asks of the machine it runs on (the clock, the external commands, the file that
  holds the aliases) is a field of the record \<open>host\<close>, and so are the functions of Go's
  standard library that work on Unicode text. The host does not change while an
  operation runs.
\<close>

subsection \<open>The functions of Go's standard library that the code calls\<close>

text \<open>
  \<^verbatim>\<open>strings.HasPrefix\<close>, \<^verbatim>\<open>HasSuffix\<close>, \<^verbatim>\<open>TrimSuffix\<close>, \<^verbatim>\<open>Contains\<close> and
  \<^verbatim>\<open>Split\<close> compare bytes; they are defined here as Go defines them.
\<close>

definition HasPrefix :: "string \<Rightarrow> string \<Rightarrow> bool" where
  "HasPrefix s pre = (length s \<ge> length pre \<and> take (length pre) s = pre)"

definition HasSuffix :: "string \<Rightarrow> string \<Rightarrow> bool" where
  "HasSuffix s suf = (length s \<ge> length suf \<and> drop (length s - length suf) s = suf)"

definition TrimSuffix :: "string \<Rightarrow> string \<Rightarrow> string" where
  "TrimSuffix s suf = (if HasSuffix s suf then take (length s - length suf) s else s)"

fun Contains :: "string \<Rightarrow> string \<Rightarrow> bool" where
  "Contains [] substr = (substr = [])"
| "Contains (c # cs) substr = (HasPrefix (c # cs) substr \<or> Contains cs substr)"

fun splitAt :: "(char \<Rightarrow> bool) \<Rightarrow> string \<Rightarrow> string list" where
  "splitAt sep [] = [[]]"
| "splitAt sep (c # cs) =
     (if sep c then [] # splitAt sep cs
      else (case splitAt sep cs of
              [] \<Rightarrow> [[c]]
            | w # ws \<Rightarrow> (c # w) # ws))"

text \<open>\<^verbatim>\<open>strings.Split(s, "\n")\<close>.\<close>

definition Lines :: "string \<Rightarrow> string list" where
  "Lines s = splitAt (\<lambda>c. c = CHR 0x0A) s"

text \<open>
  \<^verbatim>\<open>strings.ToLower\<close>, \<^verbatim>\<open>strings.EqualFold\<close>, \<^verbatim>\<open>strings.TrimSpace\<close> and
  \<^verbatim>\<open>strings.Fields\<close> decode the bytes as UTF-8 and work on Unicode code points, with
  the tables of the Unicode standard. They are not code of this repository, and neither
  are the matcher of package \<^verbatim>\<open>regexp\<close> and the encoder and decoder of package
  \<^verbatim>\<open>encoding/json\<close>: the model takes them as they are, as the fields of a record, and
  every theorem below holds whatever these functions are. \<open>jsonRoundTrip\<close> is the
  table that \<^verbatim>\<open>json.Unmarshal\<close> reads from the text that \<^verbatim>\<open>json.MarshalIndent\<close>
  wrote for a table.

  The six patterns that the managers compile with \<^verbatim>\<open>regexp.MustCompile\<close>, by name:
  \<^item> \<open>SystemdActive\<close>: \<^verbatim>\<open>(?i)Active:\s+active\b\<close>
  \<^item> \<open>SystemdEnabled\<close>: \<^verbatim>\<open>(?i)^\s*enabled\s*$\<close>
  \<^item> \<open>SysvActive\<close>: \<^verbatim>\<open>(?i)(?:^|\s)\b(running|active)\b(?:$|\s)\<close>
  \<^item> \<open>SysvEnabled\<close>: \<^verbatim>\<open>(?i)(?:^|\s)\b(enabled)\b(?:$|\s)\<close>
  \<^item> \<open>OpenrcActive\<close>: \<^verbatim>\<open>(?i)^\s*status:\s+(started|running|active)\s*$\<close>
  \<^item> \<open>OpenrcEnabled\<close>: \<^verbatim>\<open>(?i)^[^\|]+\|\s*(default|enabled)\b.*$\<close>
\<close>

datatype pattern =
  SystemdActive | SystemdEnabled | SysvActive | SysvEnabled | OpenrcActive | OpenrcEnabled

type_synonym aliasTable = "string \<rightharpoonup> string list"

record golib =
  ToLower :: "string \<Rightarrow> string"
  EqualFold :: "string \<Rightarrow> string \<Rightarrow> bool"
  TrimSpace :: "string \<Rightarrow> string"
  Fields :: "string \<Rightarrow> string list"
  regexMatch :: "pattern \<Rightarrow> string \<Rightarrow> bool"
  jsonRoundTrip :: "aliasTable \<Rightarrow> aliasTable"

text \<open>
  For the examples, the four string functions as Go computes them on ASCII strings:
  \<^verbatim>\<open>ToLower\<close> adds \<^verbatim>\<open>'a' - 'A'\<close> to the bytes \<^verbatim>\<open>'A'\<close> to \<^verbatim>\<open>'Z'\<close>, \<^verbatim>\<open>EqualFold\<close>
  compares bytes up to that shift, and the white space is tab, line feed, vertical tab,
  form feed, carriage return and space. The examples apply them to ASCII strings only.
\<close>

definition lowerByte :: "char \<Rightarrow> char" where
  "lowerByte c =
     (case map_of (zip ''ABCDEFGHIJKLMNOPQRSTUVWXYZ'' ''abcdefghijklmnopqrstuvwxyz'') c of
        Some d \<Rightarrow> d
      | None \<Rightarrow> c)"

definition asciiToLower :: "string \<Rightarrow> string" where
  "asciiToLower s = map lowerByte s"

fun asciiEqualFold :: "string \<Rightarrow> string \<Rightarrow> bool" where
  "asciiEqualFold [] [] = True"
| "asciiEqualFold (sr # s) (tr # t) =
     (if tr = sr then asciiEqualFold s t
      else if lowerByte sr = lowerByte tr then asciiEqualFold s t
      else False)"
| "asciiEqualFold _ _ = False"

definition asciiSpace :: "char \<Rightarrow> bool" where
  "asciiSpace c = (c \<in> set [CHR 0x09, CHR 0x0A, CHR 0x0B, CHR 0x0C, CHR 0x0D, CHR '' ''])"

definition asciiTrimSpace :: "string \<Rightarrow> string" where
  "asciiTrimSpace s = rev (dropWhile asciiSpace (rev (dropWhile asciiSpace s)))"

definition asciiFields :: "string \<Rightarrow> string list" where
  "asciiFields s = filter (\<lambda>w. w \<noteq> []) (splitAt asciiSpace s)"

definition asciiLib :: golib where
  "asciiLib =
     \<lparr>ToLower = asciiToLower, EqualFold = asciiEqualFold, TrimSpace = asciiTrimSpace,
      Fields = asciiFields, regexMatch = (\<lambda>_ _. False), jsonRoundTrip = (\<lambda>table. table)\<rparr>"

subsection \<open>Errors\<close>

text \<open>
  The sentinel errors of the package and the errors built with \<^verbatim>\<open>fmt.Errorf\<close>. A
  wrapped error keeps the error it wraps.
\<close>

datatype error =
    ErrServiceNotFound
  | ErrDiscoveryTimeout string
  | ErrServiceDiscovery string error
  | ErrNoValidService string
  | CommandError "string list" string
  | Errorf string
  | Wrapf string error

subsection \<open>Managers\<close>

record ServiceConfig =
  ServiceName :: "string \<rightharpoonup> string"

text \<open>Reading a Go map at a key it does not hold gives the zero value, the empty string.\<close>

definition nameFor :: "ServiceConfig \<Rightarrow> string \<Rightarrow> string" where
  "nameFor cfg mgrName = (case ServiceName cfg mgrName of Some n \<Rightarrow> n | None \<Rightarrow> [])"

text \<open>
  The interface \<^verbatim>\<open>ServiceManager\<close>: a value of it is the record of its methods. A Go
  function that returns \<^verbatim>\<open>(bool, error)\<close> returns a pair here, the error being
  \<open>None\<close> for \<^verbatim>\<open>nil\<close>.
\<close>

record ServiceManager =
  Name :: string
  IsAvailable :: bool
  ServiceExists :: "ServiceConfig \<Rightarrow> bool \<times> error option"
  BuildCommand :: "string \<Rightarrow> ServiceConfig \<Rightarrow> string list \<times> error option"
  ParseStatus :: "string \<Rightarrow> ServiceConfig \<Rightarrow> string \<Rightarrow> bool \<times> error option"
  FindServices :: "string \<Rightarrow> string list \<times> error option"

subsection \<open>The host\<close>

text \<open>
  What the package asks of the machine, none of it code of this repository: the Go
  library above, whether the process runs as root (\<^verbatim>\<open>os.Geteuid() == 0\<close>), whether a
  program is on the search path (\<^verbatim>\<open>exec.LookPath\<close>), how an external command ends
  (whether it succeeded, and its combined output), what \<^verbatim>\<open>os.Stat\<close> says of
  \<^verbatim>\<open>filepath.Join("/etc/init.d", name)\<close>, the names that \<^verbatim>\<open>os.ReadDir\<close> finds in
  \<^verbatim>\<open>/etc/init.d\<close>, the successive readings of \<^verbatim>\<open>time.Now()\<close> in nanoseconds (the
  n-th call reads \<open>clock n\<close>), the path
  \<^verbatim>\<open>filepath.Join(constant.ResourceDir, "svcaliases.json")\<close>, whether a file can be
  written and whether it can be renamed.
\<close>

datatype statResult = StatOk | StatNotExist | StatFailed

record host =
  lib :: golib
  isRootUser :: bool
  lookPath :: "string \<Rightarrow> bool"
  runCommand :: "string list \<Rightarrow> bool \<times> string"
  statInitD :: "string \<Rightarrow> statResult"
  readInitD :: "string list option"
  clock :: "nat \<Rightarrow> nat"
  aliasFilePath :: string
  canWrite :: "string \<Rightarrow> bool"
  canRename :: "string \<Rightarrow> string \<Rightarrow> bool"

definition Second :: nat where
  "Second = 1000000000"

definition Minute :: nat where
  "Minute = 60 * Second"

text \<open>
  \<^verbatim>\<open>executeCommand\<close>: the output on success, no output and a \<^verbatim>\<open>CommandError\<close> that
  carries the command line and the captured output otherwise.
\<close>

definition executeCommand :: "host \<Rightarrow> string list \<Rightarrow> string \<times> error option" where
  "executeCommand H argv =
     (case runCommand H argv of
        (True, out) \<Rightarrow> (out, None)
      | (False, out) \<Rightarrow> ([], Some (CommandError argv out)))"

record baseManager =
  baseName :: string
  cmdTool :: string
  activeRegex :: "pattern option"
  enabledRegex :: "pattern option"

definition buildBaseCommand :: "host \<Rightarrow> baseManager \<Rightarrow> string list" where
  "buildBaseCommand H b = (if \<not> isRootUser H then [''sudo''] else []) @ [cmdTool b]"

definition commonServiceExists ::
  "baseManager \<Rightarrow> ServiceConfig \<Rightarrow> (string \<Rightarrow> bool \<times> error option) \<Rightarrow> bool \<times> error option"
where
  "commonServiceExists b cfg checkFn =
     (let n = nameFor cfg (baseName b)
      in if n \<noteq> [] then
           (case checkFn n of
              (_, Some checkErr) \<Rightarrow> (False, None)
            | (found, None) \<Rightarrow> (found, None))
         else (False, None))"

definition base_ParseStatus ::
  "host \<Rightarrow> baseManager \<Rightarrow> string \<Rightarrow> ServiceConfig \<Rightarrow> string \<Rightarrow> bool \<times> error option"
where
  "base_ParseStatus H b output cfg statusType =
     (if output = [] then (False, None)
      else if statusType = ''active'' then
        (case activeRegex b of None \<Rightarrow> (False, None)
         | Some re \<Rightarrow> (regexMatch (lib H) re output, None))
      else if statusType = ''enabled'' then
        (case enabledRegex b of None \<Rightarrow> (False, None)
         | Some re \<Rightarrow> (regexMatch (lib H) re output, None))
      else (False, None))"

subsubsection \<open>systemd\<close>

definition systemdBase :: baseManager where
  "systemdBase =
     \<lparr>baseName = ''systemd'', cmdTool = ''systemctl'',
      activeRegex = Some SystemdActive, enabledRegex = Some SystemdEnabled\<rparr>"

definition systemd_ServiceExists :: "host \<Rightarrow> ServiceConfig \<Rightarrow> bool \<times> error option" where
  "systemd_ServiceExists H cfg =
     commonServiceExists systemdBase cfg
       (\<lambda>n. case executeCommand H [cmdTool systemdBase, ''list-unit-files'', n] of
               (_, Some cmdErr) \<Rightarrow> (False, Some (Wrapf ''systemctl list-unit-files failed'' cmdErr))
             | (out, None) \<Rightarrow> (Contains out n, None))"

definition systemd_BuildCommand ::
  "host \<Rightarrow> string \<Rightarrow> ServiceConfig \<Rightarrow> string list \<times> error option"
where
  "systemd_BuildCommand H action cfg =
     (let cmdArgs = buildBaseCommand H systemdBase;
          service = nameFor cfg (baseName systemdBase)
      in if action = ''is-enabled'' then (cmdArgs @ [''is-enabled'', service], None)
         else (cmdArgs @ [action, service], None))"

definition systemd_ParseStatus ::
  "host \<Rightarrow> string \<Rightarrow> ServiceConfig \<Rightarrow> string \<Rightarrow> bool \<times> error option"
where
  "systemd_ParseStatus H output cfg statusType =
     (if Contains output ''could not be found'' then (False, None)
      else case base_ParseStatus H systemdBase output cfg statusType of
             (_, Some err) \<Rightarrow> (False, None)
           | (result, None) \<Rightarrow> (result, None))"

definition systemd_FindServices :: "host \<Rightarrow> string \<Rightarrow> string list \<times> error option" where
  "systemd_FindServices H keyword =
     (case executeCommand H
             [cmdTool systemdBase, ''list-unit-files'', ''--type=service'', ''--no-legend''] of
        (_, Some err) \<Rightarrow> ([], Some (Wrapf ''failed to list systemd services'' err))
      | (out, None) \<Rightarrow>
          (concat (map (\<lambda>line. case Fields (lib H) line of
                                  [] \<Rightarrow> []
                                | serviceName # _ \<Rightarrow>
                                    (if Contains serviceName keyword then [serviceName] else []))
                       (Lines out)),
           None))"

definition newSystemdManager :: "host \<Rightarrow> ServiceManager" where
  "newSystemdManager H =
     \<lparr>Name = baseName systemdBase,
      IsAvailable = lookPath H (cmdTool systemdBase),
      ServiceExists = systemd_ServiceExists H,
      BuildCommand = systemd_BuildCommand H,
      ParseStatus = systemd_ParseStatus H,
      FindServices = systemd_FindServices H\<rparr>"

subsubsection \<open>SysV init\<close>

definition sysvinitBase :: baseManager where
  "sysvinitBase =
     \<lparr>baseName = ''sysvinit'', cmdTool = ''service'',
      activeRegex = Some SysvActive, enabledRegex = Some SysvEnabled\<rparr>"

definition sysvinit_ServiceExists :: "host \<Rightarrow> ServiceConfig \<Rightarrow> bool \<times> error option" where
  "sysvinit_ServiceExists H cfg =
     commonServiceExists sysvinitBase cfg
       (\<lambda>n. case statInitD H n of
               StatNotExist \<Rightarrow> (False, None)
             | StatFailed \<Rightarrow> (False, Some (Errorf (''stat /etc/init.d/'' @ n @ '' failed'')))
             | StatOk \<Rightarrow> (True, None))"

definition sysvinit_BuildCommand ::
  "host \<Rightarrow> string \<Rightarrow> ServiceConfig \<Rightarrow> string list \<times> error option"
where
  "sysvinit_BuildCommand H action cfg =
     (let service = nameFor cfg (baseName sysvinitBase)
      in if action = ''is-enabled'' then
           ([''sh'', ''-c'',
             ''if ls /etc/rc*.d/S*'' @ service
               @ '' >/dev/null 2>&1; then echo 'enabled'; else echo 'disabled'; fi''], None)
         else if action = ''is-active'' then
           ([''sh'', ''-c'',
             ''if service '' @ service
               @ '' status >/dev/null 2>&1; then echo 'active'; else echo 'inactive'; fi''], None)
         else (buildBaseCommand H sysvinitBase @ [service, action], None))"

definition sysvinit_ParseStatus ::
  "host \<Rightarrow> string \<Rightarrow> ServiceConfig \<Rightarrow> string \<Rightarrow> bool \<times> error option"
where
  "sysvinit_ParseStatus H output cfg statusType =
     (if statusType = ''enabled'' then
        (if Contains output ''no such file or directory'' then (False, None)
         else (TrimSpace (lib H) output \<noteq> [], None))
      else if statusType = ''active'' then
        (if Contains output ''not found'' then (False, None)
         else if Contains output ''running'' \<or> Contains output ''active'' then (True, None)
         else (False, Some (Errorf (''unsupported status type: '' @ statusType))))
      else base_ParseStatus H sysvinitBase output cfg statusType)"

definition sysvinit_FindServices :: "host \<Rightarrow> string \<Rightarrow> string list \<times> error option" where
  "sysvinit_FindServices H keyword =
     (case readInitD H of
        None \<Rightarrow> ([], Some (Errorf ''failed to read init.d directory''))
      | Some files \<Rightarrow> (filter (\<lambda>file. Contains file keyword) files, None))"

definition newSysvinitManager :: "host \<Rightarrow> ServiceManager" where
  "newSysvinitManager H =
     \<lparr>Name = baseName sysvinitBase,
      IsAvailable = lookPath H (cmdTool sysvinitBase),
      ServiceExists = sysvinit_ServiceExists H,
      BuildCommand = sysvinit_BuildCommand H,
      ParseStatus = sysvinit_ParseStatus H,
      FindServices = sysvinit_FindServices H\<rparr>"

subsubsection \<open>OpenRC\<close>

definition openrcBase :: baseManager where
  "openrcBase =
     \<lparr>baseName = ''openrc'', cmdTool = ''rc-service'',
      activeRegex = Some OpenrcActive, enabledRegex = Some OpenrcEnabled\<rparr>"

definition openrc_ServiceExists :: "host \<Rightarrow> ServiceConfig \<Rightarrow> bool \<times> error option" where
  "openrc_ServiceExists H cfg =
     commonServiceExists openrcBase cfg
       (\<lambda>n. case executeCommand H [cmdTool openrcBase, ''-l''] of
               (_, Some err) \<Rightarrow> (False, Some (Wrapf ''rc-service -l failed'' err))
             | (out, None) \<Rightarrow> (Contains out n, None))"

definition openrc_BuildCommand ::
  "host \<Rightarrow> string \<Rightarrow> ServiceConfig \<Rightarrow> string list \<times> error option"
where
  "openrc_BuildCommand H action cfg =
     (let cmdArgs = buildBaseCommand H openrcBase;
          service = nameFor cfg (baseName openrcBase)
      in if action = ''is-enabled'' then ([''rc-update'', ''check'', service], None)
         else (cmdArgs @ [service, action], None))"

definition openrc_ParseStatus ::
  "host \<Rightarrow> string \<Rightarrow> ServiceConfig \<Rightarrow> string \<Rightarrow> bool \<times> error option"
where
  "openrc_ParseStatus H output cfg statusType =
     (if Contains output ''does not exist'' then (False, None)
      else case base_ParseStatus H openrcBase output cfg statusType of
             (_, Some err) \<Rightarrow> (False, None)
           | (result, None) \<Rightarrow> (result, None))"

definition openrc_FindServices :: "host \<Rightarrow> string \<Rightarrow> string list \<times> error option" where
  "openrc_FindServices H keyword =
     (case executeCommand H [cmdTool openrcBase, ''-l''] of
        (_, Some err) \<Rightarrow> ([], Some (Wrapf ''failed to list openrc services'' err))
      | (out, None) \<Rightarrow>
          (map (TrimSpace (lib H)) (filter (\<lambda>line. Contains line keyword) (Lines out)), None))"

definition newOpenrcManager :: "host \<Rightarrow> ServiceManager" where
  "newOpenrcManager H =
     \<lparr>Name = baseName openrcBase,
      IsAvailable = lookPath H (cmdTool openrcBase),
      ServiceExists = openrc_ServiceExists H,
      BuildCommand = openrc_BuildCommand H,
      ParseStatus = openrc_ParseStatus H,
      FindServices = openrc_FindServices H\<rparr>"

text \<open>
  A host for the examples: the process is root and nothing is installed, every command
  fails without output, \<^verbatim>\<open>/etc/init.d\<close> is empty, and the n-th reading of the clock is
  n seconds.
\<close>

definition bareHost :: host where
  "bareHost =
     \<lparr>lib = asciiLib,
      isRootUser = True,
      lookPath = (\<lambda>_. False),
      runCommand = (\<lambda>_. (False, [])),
      statInitD = (\<lambda>_. StatNotExist),
      readInitD = Some [],
      clock = (\<lambda>n. n * Second),
      aliasFilePath = ''/opt/1panel/resource/svcaliases.json'',
      canWrite = (\<lambda>_. True),
      canRename = (\<lambda>_ _. True)\<rparr>"

text \<open>
  The same host with systemd and the unit \<^verbatim>\<open>docker.service\<close> installed: the two
  \<^verbatim>\<open>systemctl list-unit-files\<close> commands of the systemd manager succeed and list the
  unit.
\<close>

definition dockerHost :: host where
  "dockerHost =
     bareHost\<lparr>runCommand :=
       (\<lambda>argv. if argv = [''systemctl'', ''list-unit-files'', ''docker.service'']
                  \<or> argv = [''systemctl'', ''list-unit-files'', ''--type=service'', ''--no-legend'']
               then (True, ''docker.service enabled'')
               else (False, []))\<rparr>"

subsection \<open>Naming normalization and best-match selection\<close>

definition handleServiceNaming :: "host \<Rightarrow> ServiceManager \<Rightarrow> string \<Rightarrow> string" where
  "handleServiceNaming H mgr keyword0 =
     (let keyword = ToLower (lib H) keyword0;
          keyword = (if HasSuffix keyword ''.service.socket''
                     then TrimSuffix keyword ''.service.socket'' @ ''.socket''
                     else keyword)
      in if Name mgr \<noteq> ''systemd'' then TrimSuffix keyword ''.service''
         else if \<not> HasSuffix keyword ''.service'' \<and> \<not> HasSuffix keyword ''.socket''
              then keyword @ ''.service''
              else keyword)"

text \<open>
  Each of the two loops of \<^verbatim>\<open>selectBestMatch\<close> keeps the first name that passes its
  test and breaks; a variable that no name was assigned to is still the empty string.
\<close>

fun firstName :: "(string \<Rightarrow> bool) \<Rightarrow> string list \<Rightarrow> string" where
  "firstName test [] = []"
| "firstName test (name # names) = (if test name then name else firstName test names)"

definition selectBestMatch ::
  "host \<Rightarrow> string \<Rightarrow> string list \<Rightarrow> string \<times> error option"
where
  "selectBestMatch H keyword candidates =
     (if length candidates = 0 then ([], Some ErrServiceNotFound)
      else
        let lowerKeyword = ToLower (lib H) keyword;
            exactMatch = firstName (\<lambda>name. EqualFold (lib H) name keyword) candidates
        in if exactMatch \<noteq> [] then (exactMatch, None)
           else
             let firstContainMatch =
                   firstName (\<lambda>name. Contains (ToLower (lib H) name) lowerKeyword) candidates
             in if firstContainMatch \<noteq> [] then (firstContainMatch, None)
                else ([], Some (ErrNoValidService keyword)))"

subsection \<open>Process state\<close>

text \<open>
  One \<^verbatim>\<open>cacheItem\<close> type serves both caches. The package-level variables
  \<^verbatim>\<open>aliasFile\<close>, \<^verbatim>\<open>serviceAliases\<close>, \<^verbatim>\<open>saveTimer\<close>, \<^verbatim>\<open>serviceExistenceCache\<close> and
  \<^verbatim>\<open>discoveryCache\<close> are fields of the state, each \<^verbatim>\<open>sync.Map\<close> a map. A running
  \<^verbatim>\<open>saveTimer\<close> is the snapshot its function will write. The state also holds the
  files under \<^verbatim>\<open>constant.ResourceDir\<close>, a file being the table that its JSON text
  encodes, the number of clock readings taken so far, and two logs that the code does
  not have: the names for which \<^verbatim>\<open>confirmServiceExists\<close> asked the manager, and the
  keywords that \<^verbatim>\<open>discoverServices\<close> gave to the manager's \<^verbatim>\<open>FindServices\<close>, in
  call order.
\<close>

record cacheItem =
  services :: "string list"
  expires :: nat
  exists :: bool

record state =
  aliasFile :: string
  serviceAliases :: aliasTable
  saveTimer :: "aliasTable option"
  serviceExistenceCache :: "string \<rightharpoonup> cacheItem"
  discoveryCache :: "string \<rightharpoonup> cacheItem"
  files :: "string \<rightharpoonup> aliasTable"
  ticks :: nat
  probes :: "string list"
  finds :: "string list"

text \<open>
  The state of a process that has just started: every variable holds its zero value.
  The files are those that earlier processes left.
\<close>

definition startState :: "(string \<rightharpoonup> aliasTable) \<Rightarrow> state" where
  "startState fs =
     \<lparr>aliasFile = [], serviceAliases = Map.empty, saveTimer = None,
      serviceExistenceCache = Map.empty, discoveryCache = Map.empty,
      files = fs, ticks = 0, probes = [], finds = []\<rparr>"

definition timeNow :: "host \<Rightarrow> state \<Rightarrow> nat \<times> state" where
  "timeNow H s = (clock H (ticks s), s\<lparr>ticks := Suc (ticks s)\<rparr>)"

subsection \<open>Service handler\<close>

record ServiceHandler =
  config :: ServiceConfig
  manager :: ServiceManager

record ServiceStatus =
  IsActive :: bool
  IsEnabled :: bool
  IsExists :: bool
  Output :: string

record ServiceResult =
  Success :: bool
  Message :: string
  ResultOutput :: string

text \<open>
  \<^verbatim>\<open>GetGlobalManager\<close> returns the manager chosen at start, or panics when none can be
  chosen: it never returns \<^verbatim>\<open>nil\<close>. The chosen manager is the parameter \<open>mgr\<close> of
  every operation below, and \<^verbatim>\<open>NewServiceHandler\<close> always makes a handler.
\<close>

definition defaultServiceConfig :: "ServiceManager \<Rightarrow> string \<Rightarrow> (string \<rightharpoonup> string)" where
  "defaultServiceConfig mgr serviceName =
     (if Name mgr = [] then Map.empty else [Name mgr \<mapsto> serviceName])"

definition NewServiceHandler :: "ServiceManager \<Rightarrow> (string \<rightharpoonup> string) \<Rightarrow> ServiceHandler" where
  "NewServiceHandler mgr serviceNames =
     \<lparr>config = \<lparr>ServiceName = serviceNames\<rparr>, manager = mgr\<rparr>"

definition handler_IsExists ::
  "ServiceManager \<Rightarrow> ServiceHandler \<Rightarrow> ServiceStatus \<times> error option"
where
  "handler_IsExists mgr h =
     (let (isExist, _) = ServiceExists mgr (config h)
      in (\<lparr>IsActive = False, IsEnabled = False, IsExists = isExist, Output = []\<rparr>, None))"

text \<open>
  What the manager's existence probe answers for a name: the value that
  \<^verbatim>\<open>NewServiceHandler(defaultServiceConfig(name)).IsExists()\<close> reports.
\<close>

definition existsOn :: "ServiceManager \<Rightarrow> string \<Rightarrow> bool" where
  "existsOn mgr serviceName =
     IsExists (fst (handler_IsExists mgr
                      (NewServiceHandler mgr (defaultServiceConfig mgr serviceName))))"

subsection \<open>Existence cache\<close>

definition probeAndStore ::
  "ServiceManager \<Rightarrow> host \<Rightarrow> string \<Rightarrow> state \<Rightarrow> (bool \<times> error option) \<times> state"
where
  "probeAndStore mgr H serviceName s =
     (let handler = NewServiceHandler mgr (defaultServiceConfig mgr serviceName);
          (isExist, err) = handler_IsExists mgr handler;
          s1 = s\<lparr>probes := probes s @ [serviceName]\<rparr>
      in case err of
           Some e \<Rightarrow> ((False, Some (Wrapf ''check service existence failed'' e)), s1)
         | None \<Rightarrow>
             (let (now, s2) = timeNow H s1
              in ((IsExists isExist, None),
                  s2\<lparr>serviceExistenceCache := (serviceExistenceCache s2)
                       (serviceName \<mapsto>
                          \<lparr>services = [], expires = now + 30 * Second,
                           exists = IsExists isExist\<rparr>)\<rparr>)))"

definition confirmServiceExists ::
  "ServiceManager \<Rightarrow> host \<Rightarrow> string \<Rightarrow> state \<Rightarrow> (bool \<times> error option) \<times> state"
where
  "confirmServiceExists mgr H serviceName s =
     (case serviceExistenceCache s serviceName of
        Some item \<Rightarrow>
          (let (now, s1) = timeNow H s
           in if now < expires item then ((exists item, None), s1)
              else probeAndStore mgr H serviceName
                     (s1\<lparr>serviceExistenceCache :=
                           (serviceExistenceCache s1)(serviceName := None)\<rparr>))
      | None \<Rightarrow> probeAndStore mgr H serviceName s)"

text \<open>
  The existence cache is coherent with a manager when every answer it holds is the
  answer of that manager's probe. The empty cache is, and every operation keeps it so.
\<close>

definition coherent :: "ServiceManager \<Rightarrow> state \<Rightarrow> bool" where
  "coherent mgr s =
     (\<forall>n item. serviceExistenceCache s n = Some item \<longrightarrow> exists item = existsOn mgr n)"

text \<open>
  The loop shared by \<^verbatim>\<open>loadAliasesFromConfig\<close> and \<^verbatim>\<open>cleanupKeywordAliases\<close>: keep the
  aliases that \<^verbatim>\<open>confirmServiceExists\<close> confirms, in order.
\<close>

fun keepConfirmed ::
  "ServiceManager \<Rightarrow> host \<Rightarrow> string list \<Rightarrow> state \<Rightarrow> string list \<times> state"
where
  "keepConfirmed mgr H [] s = ([], s)"
| "keepConfirmed mgr H (alias # aliases) s =
     (let ((confirmed, _), s1) = confirmServiceExists mgr H alias s;
          (valid, s2) = keepConfirmed mgr H aliases s1
      in (if confirmed then alias # valid else valid, s2))"

subsection \<open>Alias table\<close>

definition loadPredefinedAliases :: aliasTable where
  "loadPredefinedAliases =
     [''clam'' \<mapsto> [''clamav-daemon.service'', ''clamd@scan.service'', ''clamd''],
      ''freshclam'' \<mapsto> [''clamav-freshclam.service'', ''freshclam.service''],
      ''fail2ban'' \<mapsto> [''fail2ban.service'', ''fail2ban''],
      ''supervisor'' \<mapsto>
        [''supervisord.service'', ''supervisor.service'', ''supervisord'', ''supervisor''],
      ''ssh'' \<mapsto> [''sshd.service'', ''ssh.service'', ''sshd'', ''ssh''],
      ''1panel'' \<mapsto> [''1panel.service'', ''1paneld''],
      ''docker'' \<mapsto> [''docker.service'', ''dockerd'']]"

text \<open>\<^verbatim>\<open>serviceAliases.LoadOrStore(keyword, []string{})\<close>.\<close>

definition loadOrStoreEmpty :: "string \<Rightarrow> state \<Rightarrow> string list \<times> state" where
  "loadOrStoreEmpty keyword s =
     (case serviceAliases s keyword of
        Some existing \<Rightarrow> (existing, s)
      | None \<Rightarrow> ([], s\<lparr>serviceAliases := (serviceAliases s)(keyword \<mapsto> [])\<rparr>))"

text \<open>
  \<^verbatim>\<open>scheduleSave\<close> stops the running timer, copies the table, sets \<^verbatim>\<open>aliasFile\<close> and
  starts a timer of 20 seconds. Where the code starts it as a goroutine, the model runs
  it at once.
\<close>

definition scheduleSave :: "host \<Rightarrow> state \<Rightarrow> state" where
  "scheduleSave H s =
     s\<lparr>aliasFile := aliasFilePath H, saveTimer := Some (serviceAliases s)\<rparr>"

text \<open>
  The function of the timer, run when the 20 seconds have passed:
  \<^verbatim>\<open>saveAliasesToFile\<close> writes the snapshot to the temporary file and, if that
  succeeded, \<^verbatim>\<open>os.Rename\<close> moves it over the alias file.
\<close>

definition saveTimerFires :: "host \<Rightarrow> state \<Rightarrow> state" where
  "saveTimerFires H s =
     (case saveTimer s of
        None \<Rightarrow> s
      | Some dataSnapshot \<Rightarrow>
          (let tmpFile = aliasFile s @ ''.tmp'';
               written = jsonRoundTrip (lib H) dataSnapshot
           in if canWrite H tmpFile
              then if canRename H tmpFile (aliasFile s)
                   then s\<lparr>saveTimer := None,
                          files := (files s)(tmpFile := None, aliasFile s \<mapsto> written)\<rparr>
                   else s\<lparr>saveTimer := None, files := (files s)(tmpFile \<mapsto> written)\<rparr>
              else s\<lparr>saveTimer := None\<rparr>))"

fun contains :: "string list \<Rightarrow> string \<Rightarrow> bool" where
  "contains [] item = False"
| "contains (x # slice) item = (if x = item then True else contains slice item)"

text \<open>
  \<^verbatim>\<open>updateAliases\<close>. \<open>updateAll\<close> is a sequence of calls, each with its keyword and
  alias; \<open>wellFormed\<close> says of a table that no list in it holds a name twice or
  holds its own keyword.
\<close>

definition wellFormed :: "aliasTable \<Rightarrow> bool" where
  "wellFormed table = (\<forall>k as. table k = Some as \<longrightarrow> distinct as \<and> k \<notin> set as)"

definition updateAliases :: "host \<Rightarrow> string \<Rightarrow> string \<Rightarrow> state \<Rightarrow> state" where
  "updateAliases H keyword alias s =
     (if keyword = alias then s
      else
        let (aliases, s1) = loadOrStoreEmpty keyword s
        in if contains aliases alias then s1
           else scheduleSave H
                  (s1\<lparr>serviceAliases := (serviceAliases s1)(keyword \<mapsto> aliases @ [alias])\<rparr>))"

fun updateAll :: "host \<Rightarrow> (string \<times> string) list \<Rightarrow> state \<Rightarrow> state" where
  "updateAll H [] s = s"
| "updateAll H ((keyword, alias) # calls) s = updateAll H calls (updateAliases H keyword alias s)"

text \<open>
  \<^verbatim>\<open>getAliases\<close> collects the predefined and the learned aliases in a Go map used as a
  set and lists its keys, in the order the runtime ranges over the map; the model lists
  them in the order of first occurrence.
\<close>

definition getAliases :: "string \<Rightarrow> state \<Rightarrow> string list \<times> state" where
  "getAliases keyword s =
     (let predefined = (case loadPredefinedAliases keyword of Some as \<Rightarrow> as | None \<Rightarrow> []);
          (runtimeAliases, s1) = loadOrStoreEmpty keyword s
      in (rev (remdups (rev (predefined @ runtimeAliases))), s1))"

text \<open>
  \<^verbatim>\<open>cleanupKeywordAliases\<close> ranges over the table; its function returns at once for
  every key but the keyword, so the model goes to the keyword's entry.
\<close>

definition cleanupKeywordAliases :: "ServiceManager \<Rightarrow> host \<Rightarrow> string \<Rightarrow> state \<Rightarrow> state" where
  "cleanupKeywordAliases mgr H keyword s =
     scheduleSave H
       (case serviceAliases s keyword of
          None \<Rightarrow> s
        | Some aliases \<Rightarrow>
            (let (valid, s1) = keepConfirmed mgr H aliases s
             in if length valid = 0
                then s1\<lparr>serviceAliases := (serviceAliases s1)(keyword := None),
                        serviceExistenceCache := (serviceExistenceCache s1)(keyword := None)\<rparr>
                else s1\<lparr>serviceAliases := (serviceAliases s1)(keyword \<mapsto> valid)\<rparr>))"

text \<open>
  What the cleanup leaves of a keyword's entry on a coherent cache: the aliases that
  exist, or no entry when none does.
\<close>

definition purged :: "ServiceManager \<Rightarrow> string list option \<Rightarrow> string list option" where
  "purged mgr entry =
     (case entry of
        None \<Rightarrow> None
      | Some aliases \<Rightarrow>
          if filter (existsOn mgr) aliases = [] then None
          else Some (filter (existsOn mgr) aliases))"

subsection \<open>Persisted aliases\<close>

text \<open>\<^verbatim>\<open>os.ReadFile\<close>: the empty path names no file.\<close>

definition readFile :: "state \<Rightarrow> string \<Rightarrow> aliasTable option" where
  "readFile s path = (if path = [] then None else files s path)"

text \<open>
  \<^verbatim>\<open>loadAliasesFromConfig\<close> ranges over the decoded table \<^verbatim>\<open>rawAliases\<close>. Go leaves
  the order of that loop open: it is the parameter \<open>order\<close>, a list of the keys. The
  Go map \<^verbatim>\<open>validAliases\<close> that the loop fills is the list of its entries.
\<close>

fun loadLoop ::
  "ServiceManager \<Rightarrow> host \<Rightarrow> aliasTable \<Rightarrow> string list \<Rightarrow> state
     \<Rightarrow> (string \<times> string list) list \<times> state"
where
  "loadLoop mgr H rawAliases [] s = ([], s)"
| "loadLoop mgr H rawAliases (key # keys) s =
     (case rawAliases key of
        None \<Rightarrow> loadLoop mgr H rawAliases keys s
      | Some aliases \<Rightarrow>
          (let (valid, s1) = keepConfirmed mgr H aliases s;
               (validAliases, s2) = loadLoop mgr H rawAliases keys s1
           in (if length valid > 0 then (key, valid) # validAliases else validAliases, s2)))"

definition loadAliasesFromConfig ::
  "ServiceManager \<Rightarrow> host \<Rightarrow> string list \<Rightarrow> state \<Rightarrow> (string \<times> string list) list \<times> state"
where
  "loadAliasesFromConfig mgr H order s =
     (case readFile s (aliasFile s) of
        None \<Rightarrow> ([], s)
      | Some rawAliases \<Rightarrow> loadLoop mgr H rawAliases order s)"

fun RegisterServiceAliases :: "(string \<times> string list) list \<Rightarrow> state \<Rightarrow> state" where
  "RegisterServiceAliases [] s = s"
| "RegisterServiceAliases ((key, vals) # aliases) s =
     RegisterServiceAliases aliases
       (case serviceAliases s key of
          None \<Rightarrow> s\<lparr>serviceAliases := (serviceAliases s)(key \<mapsto> vals)\<rparr>
        | Some existing \<Rightarrow> s\<lparr>serviceAliases := (serviceAliases s)(key \<mapsto> existing @ vals)\<rparr>)"

definition InitializeServiceDiscovery ::
  "ServiceManager \<Rightarrow> host \<Rightarrow> string list \<Rightarrow> state \<Rightarrow> state"
where
  "InitializeServiceDiscovery mgr H order s =
     (let (svcName, s1) = loadAliasesFromConfig mgr H order s
      in if length svcName > 0 then RegisterServiceAliases svcName s1 else s1)"

subsection \<open>Candidate validation\<close>

text \<open>
  \<^verbatim>\<open>validateCandidatesConcurrently\<close> starts one goroutine for each candidate; each
  calls \<^verbatim>\<open>confirmServiceExists\<close> and offers its candidate on a channel when confirmed.
  The function returns what its \<^verbatim>\<open>select\<close> receives first: a name from the channel
  \<^verbatim>\<open>found\<close>, the timer of one second (\<^verbatim>\<open>ErrDiscoveryTimeout\<close>), or the result of
  waiting for all goroutines (\<^verbatim>\<open>ErrServiceNotFound\<close>). Which one that is, is for the
  scheduler and the wall clock to decide, so the model takes it as a parameter, together
  with the candidates whose goroutine has finished its call by then, in the order in
  which they finished. The goroutines that have not finished by then are left out.
\<close>

record race =
  finished :: "string list"
  received :: "string \<times> error option"

fun probeAll :: "ServiceManager \<Rightarrow> host \<Rightarrow> string list \<Rightarrow> state \<Rightarrow> state" where
  "probeAll mgr H [] s = s"
| "probeAll mgr H (cand # cands) s =
     probeAll mgr H cands (snd (confirmServiceExists mgr H cand s))"

definition validateCandidatesConcurrently ::
  "ServiceManager \<Rightarrow> host \<Rightarrow> race \<Rightarrow> string list \<Rightarrow> state \<Rightarrow> (string \<times> error option) \<times> state"
where
  "validateCandidatesConcurrently mgr H sched candidates s =
     (received sched,
      probeAll mgr H (filter (\<lambda>cand. cand \<in> set candidates) (finished sched)) s)"

subsection \<open>Discovery\<close>

text \<open>
  \<^verbatim>\<open>discoverServices\<close> runs its body in a single-flight group; the body is what one
  caller alone executes.
\<close>

definition findAndStore ::
  "ServiceManager \<Rightarrow> host \<Rightarrow> string \<Rightarrow> state \<Rightarrow> (string list \<times> error option) \<times> state"
where
  "findAndStore mgr H keyword s =
     (let (results, err) = FindServices mgr keyword;
          s1 = s\<lparr>finds := finds s @ [keyword]\<rparr>
      in case err of
           Some e \<Rightarrow> (([], Some (ErrServiceDiscovery keyword e)), s1)
         | None \<Rightarrow>
             (let (now, s2) = timeNow H s1
              in ((results, None),
                  s2\<lparr>discoveryCache := (discoveryCache s2)
                       (keyword \<mapsto>
                          \<lparr>services = results, expires = now + 5 * Minute,
                           exists = False\<rparr>)\<rparr>)))"

definition discoverServices ::
  "ServiceManager \<Rightarrow> host \<Rightarrow> string \<Rightarrow> state \<Rightarrow> (string list \<times> error option) \<times> state"
where
  "discoverServices mgr H keyword s =
     (case discoveryCache s keyword of
        Some item \<Rightarrow>
          (let (now, s1) = timeNow H s
           in if now < expires item then ((services item, None), s1)
              else findAndStore mgr H keyword
                     (s1\<lparr>discoveryCache := (discoveryCache s1)(keyword := None)\<rparr>))
      | None \<Rightarrow> findAndStore mgr H keyword s)"

definition discoverAndSelectService ::
  "ServiceManager \<Rightarrow> host \<Rightarrow> string \<Rightarrow> state \<Rightarrow> (string \<times> error option) \<times> state"
where
  "discoverAndSelectService mgr H keyword s =
     (let ((discovered, err), s1) = discoverServices mgr H keyword s
      in if err \<noteq> None then (([], Some ErrServiceNotFound), s1)
         else if length discovered = 0 then (([], Some ErrServiceNotFound), s1)
         else
           let (selected, err) = selectBestMatch H keyword discovered
           in if err \<noteq> None then (([], Some ErrServiceNotFound), s1)
              else
                let ((confirmed, err), s2) = confirmServiceExists mgr H selected s1
                in case err of
                     Some e \<Rightarrow> (([], Some (Wrapf ''service existence check failed'' e)), s2)
                   | None \<Rightarrow>
                       if confirmed then ((selected, None), s2)
                       else (([], Some ErrServiceNotFound), s2))"

subsection \<open>The resolver\<close>

definition smartServiceName ::
  "ServiceManager \<Rightarrow> host \<Rightarrow> race \<Rightarrow> string \<Rightarrow> state \<Rightarrow> (string \<times> error option) \<times> state"
where
  "smartServiceName mgr H sched keyword s =
     (let processedName = handleServiceNaming H mgr keyword;
          ((confirmed, _), s1) = confirmServiceExists mgr H processedName s
      in if confirmed
         then ((processedName, None), updateAliases H keyword processedName s1)
         else
           let (aliases, s2) = getAliases keyword s1;
               candidates = [processedName] @ aliases;
               ((cand, err), s3) = validateCandidatesConcurrently mgr H sched candidates s2
           in if err = None then ((cand, None), updateAliases H keyword cand s3)
              else
                let ((discoveredName, err), s4) = discoverAndSelectService mgr H keyword s3
                in if err \<noteq> None
                   then (([], Some ErrServiceNotFound), cleanupKeywordAliases mgr H keyword s4)
                   else ((discoveredName, None), updateAliases H keyword discoveredName s4))"

subsection \<open>The facade\<close>

text \<open>
  A \<^verbatim>\<open>*ServiceHandler\<close> may be \<^verbatim>\<open>nil\<close>: it is an option. A call ends by returning
  or by a run-time panic (reading a field through a \<^verbatim>\<open>nil\<close> pointer, taking the first
  element of an empty slice).
\<close>

datatype 'a outcome = Returned 'a | Panicked

definition DefaultHandler ::
  "ServiceManager \<Rightarrow> host \<Rightarrow> race \<Rightarrow> string \<Rightarrow> state
     \<Rightarrow> (ServiceHandler option \<times> error option) \<times> state"
where
  "DefaultHandler mgr H sched serviceName s =
     (let ((svcName, err), s1) = smartServiceName mgr H sched serviceName s
      in if err \<noteq> None then ((None, Some ErrServiceNotFound), s1)
         else ((Some (NewServiceHandler mgr (defaultServiceConfig mgr svcName)), None), s1))"

definition ManagerName :: "ServiceHandler option \<Rightarrow> string outcome" where
  "ManagerName h = (case h of None \<Rightarrow> Panicked | Some hdl \<Rightarrow> Returned (Name (manager hdl)))"

definition GetServiceName :: "ServiceHandler option \<Rightarrow> string outcome" where
  "GetServiceName h =
     (case ManagerName h of
        Panicked \<Rightarrow> Panicked
      | Returned mgrName \<Rightarrow>
          if mgrName = [] then Returned []
          else (case h of
                  None \<Rightarrow> Panicked
                | Some hdl \<Rightarrow> Returned (nameFor (config hdl) mgrName)))"

definition executeAction ::
  "ServiceManager \<Rightarrow> host \<Rightarrow> ServiceHandler option \<Rightarrow> string \<Rightarrow> string
     \<Rightarrow> (ServiceResult \<times> error option) outcome"
where
  "executeAction mgr H h action successMsg =
     (case h of
        None \<Rightarrow> Panicked
      | Some hdl \<Rightarrow>
          (case BuildCommand mgr action (config hdl) of
             (_, Some err) \<Rightarrow>
               Returned (\<lparr>Success = False, Message = [], ResultOutput = []\<rparr>,
                         Some (Wrapf ''build command failed'' err))
           | (cmdArgs, None) \<Rightarrow>
               (if cmdArgs = [] then Panicked
                else case executeCommand H cmdArgs of
                       (out, Some err) \<Rightarrow>
                         Returned (\<lparr>Success = False, Message = action @ '' failed'',
                                    ResultOutput = out\<rparr>,
                                   Some (Wrapf (action @ '' operation failed'') err))
                     | (out, None) \<Rightarrow>
                         Returned (\<lparr>Success = True, Message = successMsg,
                                    ResultOutput = out\<rparr>, None))))"

definition ExecuteAction ::
  "ServiceManager \<Rightarrow> host \<Rightarrow> ServiceHandler option \<Rightarrow> string
     \<Rightarrow> (ServiceResult \<times> error option) outcome"
where
  "ExecuteAction mgr H h action =
     (case GetServiceName h of
        Panicked \<Rightarrow> Panicked
      | Returned svc \<Rightarrow> executeAction mgr H h action (action @ '' : '' @ svc @ '' completed''))"

definition StartService ::
  "ServiceManager \<Rightarrow> host \<Rightarrow> ServiceHandler option \<Rightarrow> (ServiceResult \<times> error option) outcome"
where
  "StartService mgr H h = ExecuteAction mgr H h ''start''"

definition StopService ::
  "ServiceManager \<Rightarrow> host \<Rightarrow> ServiceHandler option \<Rightarrow> (ServiceResult \<times> error option) outcome"
where
  "StopService mgr H h = ExecuteAction mgr H h ''stop''"

definition RestartService ::
  "ServiceManager \<Rightarrow> host \<Rightarrow> ServiceHandler option \<Rightarrow> (ServiceResult \<times> error option) outcome"
where
  "RestartService mgr H h = ExecuteAction mgr H h ''restart''"

definition EnableService ::
  "ServiceManager \<Rightarrow> host \<Rightarrow> ServiceHandler option \<Rightarrow> (ServiceResult \<times> error option) outcome"
where
  "EnableService mgr H h = ExecuteAction mgr H h ''enable''"

definition DisableService ::
  "ServiceManager \<Rightarrow> host \<Rightarrow> ServiceHandler option \<Rightarrow> (ServiceResult \<times> error option) outcome"
where
  "DisableService mgr H h = ExecuteAction mgr H h ''disable''"


text \<open>
  The five operations return a Go \<^verbatim>\<open>error\<close>: \<open>Returned None\<close> is success,
  \<open>Returned (Some e)\<close> an error value.
\<close>

definition wrapFailure ::
  "string \<Rightarrow> (ServiceResult \<times> error option) outcome \<Rightarrow> error option outcome"
where
  "wrapFailure msg r =
     (case r of
        Panicked \<Rightarrow> Panicked
      | Returned (result, Some err) \<Rightarrow> Returned (Some (Wrapf msg err))
      | Returned (result, None) \<Rightarrow> Returned None)"

definition Start ::
  "ServiceManager \<Rightarrow> host \<Rightarrow> race \<Rightarrow> string \<Rightarrow> state \<Rightarrow> error option outcome \<times> state"
where
  "Start mgr H sched serviceName s =
     (let ((handler, _), s1) = DefaultHandler mgr H sched serviceName s
      in (wrapFailure ''start failed'' (StartService mgr H handler), s1))"

definition Stop ::
  "ServiceManager \<Rightarrow> host \<Rightarrow> race \<Rightarrow> string \<Rightarrow> state \<Rightarrow> error option outcome \<times> state"
where
  "Stop mgr H sched serviceName s =
     (let ((handler, err), s1) = DefaultHandler mgr H sched serviceName s
      in if err \<noteq> None then (Returned (Some (Errorf (serviceName @ '' is not exist''))), s1)
         else (wrapFailure ''stop failed'' (StopService mgr H handler), s1))"

definition Restart ::
  "ServiceManager \<Rightarrow> host \<Rightarrow> race \<Rightarrow> string \<Rightarrow> state \<Rightarrow> error option outcome \<times> state"
where
  "Restart mgr H sched serviceName s =
     (let ((handler, err), s1) = DefaultHandler mgr H sched serviceName s
      in if err \<noteq> None then (Returned (Some (Errorf (serviceName @ '' is not exist''))), s1)
         else (wrapFailure ''restart failed'' (RestartService mgr H handler), s1))"

definition Enable ::
  "ServiceManager \<Rightarrow> host \<Rightarrow> race \<Rightarrow> string \<Rightarrow> state \<Rightarrow> error option outcome \<times> state"
where
  "Enable mgr H sched serviceName s =
     (let ((handler, err), s1) = DefaultHandler mgr H sched serviceName s
      in if err \<noteq> None then (Returned (Some (Errorf (serviceName @ '' is not exist''))), s1)
         else (wrapFailure (serviceName @ '' enable failed'') (EnableService mgr H handler), s1))"

definition Disable ::
  "ServiceManager \<Rightarrow> host \<Rightarrow> race \<Rightarrow> string \<Rightarrow> state \<Rightarrow> error option outcome \<times> state"
where
  "Disable mgr H sched serviceName s =
     (let ((handler, _), s1) = DefaultHandler mgr H sched serviceName s
      in (wrapFailure ''disable failed'' (DisableService mgr H handler), s1))"

section \<open>Properties\<close>

subsection \<open>The string functions\<close>

lemma HasSuffix_iff: "HasSuffix s suf \<longleftrightarrow> suffix suf s"
  unfolding HasSuffix_def suffix_def
  by (metis append_eq_conv_conj append_take_drop_id diff_add_inverse2 le_add2 length_append
      length_drop)

lemma HasPrefix_iff: "HasPrefix s pre \<longleftrightarrow> prefix pre s"
  unfolding HasPrefix_def prefix_def
  by (metis append_eq_conv_conj append_take_drop_id le_add1 length_append)

lemma Contains_iff: "Contains s substr \<longleftrightarrow> sublist substr s"
  by (induction s) (auto simp: HasPrefix_iff sublist_Cons_right)

lemma TrimSuffix_append: "TrimSuffix (p @ suf) suf = p"
  by (simp add: TrimSuffix_def HasSuffix_def)

lemma TrimSuffix_other: "\<not> suffix suf s \<Longrightarrow> TrimSuffix s suf = s"
  by (simp add: TrimSuffix_def HasSuffix_iff)

lemma find_SomeD: "find P xs = Some x \<Longrightarrow> P x \<and> x \<in> set xs"
  by (induction xs) (auto split: if_splits)

subsection \<open>The example host\<close>

lemma asciiLib_simps:
  "ToLower (lib bareHost) = asciiToLower" "EqualFold (lib bareHost) = asciiEqualFold"
  "TrimSpace (lib bareHost) = asciiTrimSpace"
  by (simp_all add: bareHost_def asciiLib_def)

lemma manager_names:
  "Name (newSystemdManager H) = ''systemd''" "Name (newSysvinitManager H) = ''sysvinit''"
  "Name (newOpenrcManager H) = ''openrc''"
  by (simp_all add: newSystemdManager_def newSysvinitManager_def newOpenrcManager_def
      systemdBase_def sysvinitBase_def openrcBase_def)

subsection \<open>Best-match selection\<close>

lemma firstName_find:
  "firstName test names = (case find test names of Some n \<Rightarrow> n | None \<Rightarrow> [])"
  by (induction names) auto

text \<open>
  Claim C1, as amended. For every keyword and every list of candidate names in which
  the empty string does not occur, or occurs but matches the keyword neither up to
  case nor by containment: \<^verbatim>\<open>selectBestMatch\<close> fails with \<^verbatim>\<open>ErrServiceNotFound\<close> on
  the empty list; otherwise it returns the first candidate in list order that
  \<^verbatim>\<open>strings.EqualFold\<close> equates with the keyword, when there is one; otherwise the
  first candidate in list order whose lower-cased name contains the lower-cased keyword
  as a substring; otherwise it fails with the "no exact or partial match" error
  \<^verbatim>\<open>ErrNoValidService\<close> and an empty name. This holds whatever \<^verbatim>\<open>strings.EqualFold\<close>
  and \<^verbatim>\<open>strings.ToLower\<close> compute.
\<close>

theorem selectBestMatch_first_match:
  assumes "[] \<notin> set candidates
           \<or> (\<not> EqualFold (lib H) [] keyword
              \<and> \<not> sublist (ToLower (lib H) keyword) (ToLower (lib H) []))"
  shows "selectBestMatch H keyword candidates =
    (if candidates = [] then ([], Some ErrServiceNotFound)
     else case find (\<lambda>n. EqualFold (lib H) n keyword) candidates of
        Some n \<Rightarrow> (n, None)
      | None \<Rightarrow>
          (case find (\<lambda>n. sublist (ToLower (lib H) keyword) (ToLower (lib H) n)) candidates of
             Some n \<Rightarrow> (n, None)
           | None \<Rightarrow> ([], Some (ErrNoValidService keyword))))"
proof (cases "candidates = []")
  case True
  then show ?thesis by (simp add: selectBestMatch_def)
next
  case False
  have exact: "n \<noteq> []"
    if "find (\<lambda>n. EqualFold (lib H) n keyword) candidates = Some n" for n
    using find_SomeD [OF that] assms by auto
  have part: "n \<noteq> []"
    if "find (\<lambda>n. sublist (ToLower (lib H) keyword) (ToLower (lib H) n)) candidates = Some n"
    for n
    using find_SomeD [OF that] assms by auto
  from False exact part show ?thesis
    by (auto simp: selectBestMatch_def firstName_find Contains_iff Let_def
        split: option.splits)
qed

text \<open>
  The theorem at the spec's own example, in both orders of the discovered list, and at
  an exact match that is not the first candidate.
\<close>

theorem selectBestMatch_first_match_witness:
  "selectBestMatch bareHost ''docker'' [''dockerd'', ''docker.service''] = (''dockerd'', None)
   \<and> selectBestMatch bareHost ''docker'' [''docker.service'', ''dockerd'']
       = (''docker.service'', None)
   \<and> selectBestMatch bareHost ''docker'' [''dockerd'', ''docker''] = (''docker'', None)"
  using selectBestMatch_first_match [of "[''dockerd'', ''docker.service'']" bareHost "''docker''"]
    selectBestMatch_first_match [of "[''docker.service'', ''dockerd'']" bareHost "''docker''"]
    selectBestMatch_first_match [of "[''dockerd'', ''docker'']" bareHost "''docker''"]
  by (simp add: asciiLib_simps Contains_iff [symmetric] HasPrefix_def asciiToLower_def
      lowerByte_def)

text \<open>
  Claim C1 as it is written compares the lower-cased name with the keyword itself. At
  the keyword \<^verbatim>\<open>Docker\<close> and the discovered list \<^verbatim>\<open>[Dockerd]\<close> no candidate equals the
  keyword up to case, and the lower-cased name \<^verbatim>\<open>dockerd\<close> does not contain the
  keyword, so the claim asks for the error; the code compares with the lower-cased
  keyword and returns \<^verbatim>\<open>Dockerd\<close>.
\<close>

theorem selectBestMatch_keyword_case_counterexample:
  "\<not> EqualFold (lib bareHost) ''Dockerd'' ''Docker''
   \<and> \<not> Contains (ToLower (lib bareHost) ''Dockerd'') ''Docker''
   \<and> selectBestMatch bareHost ''Docker'' [''Dockerd''] = (''Dockerd'', None)"
  by (simp add: selectBestMatch_def asciiLib_simps HasPrefix_def asciiToLower_def lowerByte_def)

text \<open>
  The empty string is what the two loop variables hold before a match, so a candidate
  that is the empty string is never returned: with the empty keyword it is skipped as
  an exact match.
\<close>

lemma selectBestMatch_empty_name:
  "selectBestMatch bareHost [] [''a'', []] = (''a'', None)"
  "selectBestMatch bareHost [] [[]] = ([], Some (ErrNoValidService []))"
  by (simp_all add: selectBestMatch_def asciiLib_simps HasPrefix_def asciiToLower_def)

subsection \<open>Naming normalization\<close>

lemma no_service_suffix: "\<not> suffix ''.service'' (p @ ''.socket'')"
proof
  assume "suffix ''.service'' (p @ ''.socket'')"
  then obtain q where "p @ ''.socket'' = q @ ''.service''" by (auto simp: suffix_def)
  then have "last (p @ ''.socket'') = last (q @ ''.service'')" by simp
  then show False by simp
qed

text \<open>
  Claim C2. With \<open>k\<close> the keyword as \<^verbatim>\<open>strings.ToLower\<close> lower-cases it and \<open>r\<close> the
  result of \<^verbatim>\<open>handleServiceNaming\<close>: if \<open>k\<close> is \<open>p\<close> followed by \<^verbatim>\<open>.service.socket\<close>
  then \<open>r\<close> is \<open>p\<close> followed by \<^verbatim>\<open>.socket\<close>, whatever the manager. Otherwise, under
  systemd \<open>r\<close> is \<open>k\<close> when \<open>k\<close> ends in \<^verbatim>\<open>.service\<close> or \<^verbatim>\<open>.socket\<close> and \<open>k\<close> followed
  by \<^verbatim>\<open>.service\<close> when it does not; under any other manager \<open>r\<close> is \<open>k\<close> without its
  \<^verbatim>\<open>.service\<close> suffix when it has one (the suffix is taken off once) and \<open>k\<close> when it
  has none. Under systemd \<open>r\<close> always ends in \<^verbatim>\<open>.service\<close> or \<^verbatim>\<open>.socket\<close>. This holds
  whatever \<^verbatim>\<open>strings.ToLower\<close> computes.
\<close>

theorem handleServiceNaming_spec:
  "(\<forall>p. ToLower (lib H) keyword = p @ ''.service.socket'' \<longrightarrow>
        handleServiceNaming H mgr keyword = p @ ''.socket'')
   \<and> (\<not> suffix ''.service.socket'' (ToLower (lib H) keyword) \<longrightarrow>
        (Name mgr = ''systemd'' \<longrightarrow>
           handleServiceNaming H mgr keyword =
             (if suffix ''.service'' (ToLower (lib H) keyword)
                 \<or> suffix ''.socket'' (ToLower (lib H) keyword)
              then ToLower (lib H) keyword else ToLower (lib H) keyword @ ''.service''))
      \<and> (Name mgr \<noteq> ''systemd'' \<longrightarrow>
           (\<forall>p. ToLower (lib H) keyword = p @ ''.service'' \<longrightarrow>
                 handleServiceNaming H mgr keyword = p)
         \<and> (\<not> suffix ''.service'' (ToLower (lib H) keyword) \<longrightarrow>
              handleServiceNaming H mgr keyword = ToLower (lib H) keyword)))
   \<and> (Name mgr = ''systemd'' \<longrightarrow>
        suffix ''.service'' (handleServiceNaming H mgr keyword)
        \<or> suffix ''.socket'' (handleServiceNaming H mgr keyword))"
proof (intro conjI allI impI)
  fix p assume "ToLower (lib H) keyword = p @ ''.service.socket''"
  then show "handleServiceNaming H mgr keyword = p @ ''.socket''"
    using no_service_suffix [of p] suffix_appendI [OF suffix_order.refl, of "''.socket''" p]
      suffix_appendI [OF suffix_order.refl, of "''.service.socket''" p]
    by (simp add: handleServiceNaming_def Let_def HasSuffix_iff TrimSuffix_append
        TrimSuffix_other del: append.simps)
next
  assume "\<not> suffix ''.service.socket'' (ToLower (lib H) keyword)" "Name mgr = ''systemd''"
  then show "handleServiceNaming H mgr keyword =
             (if suffix ''.service'' (ToLower (lib H) keyword)
                 \<or> suffix ''.socket'' (ToLower (lib H) keyword)
              then ToLower (lib H) keyword else ToLower (lib H) keyword @ ''.service'')"
    by (simp add: handleServiceNaming_def Let_def HasSuffix_iff)
next
  fix p assume "\<not> suffix ''.service.socket'' (ToLower (lib H) keyword)"
    "Name mgr \<noteq> ''systemd''" "ToLower (lib H) keyword = p @ ''.service''"
  then show "handleServiceNaming H mgr keyword = p"
    by (simp add: handleServiceNaming_def Let_def HasSuffix_iff TrimSuffix_append)
next
  assume "\<not> suffix ''.service.socket'' (ToLower (lib H) keyword)" "Name mgr \<noteq> ''systemd''"
    "\<not> suffix ''.service'' (ToLower (lib H) keyword)"
  then show "handleServiceNaming H mgr keyword = ToLower (lib H) keyword"
    by (simp add: handleServiceNaming_def Let_def HasSuffix_iff TrimSuffix_other)
next
  assume "Name mgr = ''systemd''"
  then show "suffix ''.service'' (handleServiceNaming H mgr keyword)
        \<or> suffix ''.socket'' (handleServiceNaming H mgr keyword)"
    unfolding handleServiceNaming_def Let_def HasSuffix_iff
    by (simp add: suffix_def del: append_assoc append.simps)
qed

text \<open>The theorem at five ASCII keywords, under systemd and under SysV init.\<close>

theorem handleServiceNaming_spec_witness:
  "handleServiceNaming bareHost (newSystemdManager bareHost) ''Docker'' = ''docker.service''
   \<and> handleServiceNaming bareHost (newSystemdManager bareHost) ''docker.socket''
       = ''docker.socket''
   \<and> handleServiceNaming bareHost (newSystemdManager bareHost) ''Nginx.Service.Socket''
       = ''nginx.socket''
   \<and> handleServiceNaming bareHost (newSysvinitManager bareHost) ''SSH.service'' = ''ssh''
   \<and> handleServiceNaming bareHost (newSysvinitManager bareHost) ''ssh'' = ''ssh''"
proof -
  have low: "ToLower (lib bareHost) ''Docker'' = ''docker''"
    "ToLower (lib bareHost) ''docker.socket'' = ''docker.socket''"
    "ToLower (lib bareHost) ''Nginx.Service.Socket'' = ''nginx'' @ ''.service.socket''"
    "ToLower (lib bareHost) ''SSH.service'' = ''ssh'' @ ''.service''"
    "ToLower (lib bareHost) ''ssh'' = ''ssh''"
    by (simp_all add: asciiLib_simps asciiToLower_def lowerByte_def)
  have suf: "\<not> suffix ''.service.socket'' ''docker''" "\<not> suffix ''.service'' ''docker''"
    "\<not> suffix ''.socket'' ''docker''" "\<not> suffix ''.service.socket'' ''docker.socket''"
    "suffix ''.socket'' ''docker.socket''"
    "\<not> suffix ''.service.socket'' (''ssh'' @ ''.service'')"
    "\<not> suffix ''.service.socket'' ''ssh''" "\<not> suffix ''.service'' ''ssh''"
    by (simp_all add: HasSuffix_iff [symmetric] HasSuffix_def)
  note sysd = manager_names(1) [of bareHost]
  have sysv: "Name (newSysvinitManager bareHost) \<noteq> ''systemd''"
    by (simp add: manager_names)
  have "handleServiceNaming bareHost (newSystemdManager bareHost) ''Docker'' = ''docker.service''"
    using handleServiceNaming_spec [of bareHost "''Docker''" "newSystemdManager bareHost"]
      suf sysd
    unfolding low by simp
  moreover
  have "handleServiceNaming bareHost (newSystemdManager bareHost) ''docker.socket''
          = ''docker.socket''"
    using handleServiceNaming_spec [of bareHost "''docker.socket''" "newSystemdManager bareHost"]
      suf sysd
    unfolding low by simp
  moreover
  have "handleServiceNaming bareHost (newSystemdManager bareHost) ''Nginx.Service.Socket''
          = ''nginx'' @ ''.socket''"
    using handleServiceNaming_spec
            [of bareHost "''Nginx.Service.Socket''" "newSystemdManager bareHost"] low(3)
    by blast
  moreover
  have "handleServiceNaming bareHost (newSysvinitManager bareHost) ''SSH.service'' = ''ssh''"
    using handleServiceNaming_spec [of bareHost "''SSH.service''" "newSysvinitManager bareHost"]
      suf(6) sysv low(4)
    by metis
  moreover
  have "handleServiceNaming bareHost (newSysvinitManager bareHost) ''ssh'' = ''ssh''"
    using handleServiceNaming_spec [of bareHost "''ssh''" "newSysvinitManager bareHost"]
      suf sysv
    unfolding low by simp
  ultimately show ?thesis by simp
qed

subsection \<open>Alias-table updates\<close>

lemma contains_iff: "contains slice item \<longleftrightarrow> item \<in> set slice"
  by (induction slice) auto

lemma updateAliases_table:
  "serviceAliases (updateAliases H keyword alias s) =
     (if keyword = alias then serviceAliases s
      else case serviceAliases s keyword of
             None \<Rightarrow> (serviceAliases s)(keyword \<mapsto> [alias])
           | Some as \<Rightarrow> if alias \<in> set as then serviceAliases s
                        else (serviceAliases s)(keyword \<mapsto> as @ [alias]))"
  by (auto simp: updateAliases_def loadOrStoreEmpty_def scheduleSave_def contains_iff
      split: option.splits)

lemma updateAliases_wellFormed:
  "wellFormed (serviceAliases s) \<Longrightarrow> wellFormed (serviceAliases (updateAliases H keyword alias s))"
  unfolding updateAliases_table wellFormed_def
  by (auto split: option.splits)

lemma updateAll_wellFormed:
  "wellFormed (serviceAliases s) \<Longrightarrow> wellFormed (serviceAliases (updateAll H calls s))"
  by (induction calls arbitrary: s) (auto simp: updateAliases_wellFormed)

text \<open>
  Claim C10. \<^verbatim>\<open>updateAliases\<close> returns the state as it was when the alias is the
  keyword or is already in the keyword's list; otherwise it appends exactly that alias
  to the keyword's list (the empty list, if the keyword had none) and changes no other
  entry. A table in which no list holds a name twice or holds its own keyword stays
  so under any sequence of calls, and so does the empty table of a process that has
  just started.
\<close>

theorem updateAliases_invariant:
  "(keyword = alias \<or> (\<exists>as. serviceAliases s keyword = Some as \<and> alias \<in> set as) \<longrightarrow>
      updateAliases H keyword alias s = s)
   \<and> (keyword \<noteq> alias \<and> (\<forall>as. serviceAliases s keyword = Some as \<longrightarrow> alias \<notin> set as) \<longrightarrow>
        serviceAliases (updateAliases H keyword alias s) =
          (serviceAliases s)
            (keyword \<mapsto> (case serviceAliases s keyword of Some as \<Rightarrow> as | None \<Rightarrow> []) @ [alias]))
   \<and> (wellFormed (serviceAliases s) \<longrightarrow> wellFormed (serviceAliases (updateAll H calls s)))
   \<and> wellFormed (serviceAliases (updateAll H calls (startState fs)))"
proof (intro conjI impI)
  assume "keyword = alias \<or> (\<exists>as. serviceAliases s keyword = Some as \<and> alias \<in> set as)"
  then show "updateAliases H keyword alias s = s"
    by (auto simp: updateAliases_def loadOrStoreEmpty_def contains_iff)
next
  assume "keyword \<noteq> alias \<and> (\<forall>as. serviceAliases s keyword = Some as \<longrightarrow> alias \<notin> set as)"
  then show "serviceAliases (updateAliases H keyword alias s) =
          (serviceAliases s)
            (keyword \<mapsto> (case serviceAliases s keyword of Some as \<Rightarrow> as | None \<Rightarrow> []) @ [alias])"
    by (auto simp: updateAliases_table split: option.splits)
next
  assume "wellFormed (serviceAliases s)"
  then show "wellFormed (serviceAliases (updateAll H calls s))"
    by (rule updateAll_wellFormed)
next
  have "wellFormed (serviceAliases (startState fs))"
    by (simp add: wellFormed_def startState_def)
  then show "wellFormed (serviceAliases (updateAll H calls (startState fs)))"
    by (rule updateAll_wellFormed)
qed

text \<open>
  Four calls on the empty table: the second gives the keyword as its own alias and the
  third repeats the first; both leave the state as it was.
\<close>

theorem updateAliases_invariant_witness:
  "serviceAliases
     (updateAll bareHost
        [(''docker'', ''docker.service''), (''docker'', ''docker''),
         (''docker'', ''docker.service''), (''docker'', ''dockerd'')]
        (startState Map.empty)) ''docker''
     = Some [''docker.service'', ''dockerd'']
   \<and> wellFormed (serviceAliases
        (updateAll bareHost
           [(''docker'', ''docker.service''), (''docker'', ''docker''),
            (''docker'', ''docker.service''), (''docker'', ''dockerd'')]
           (startState Map.empty)))"
proof -
  let ?s1 = "updateAliases bareHost ''docker'' ''docker.service'' (startState Map.empty)"
  have t1: "serviceAliases ?s1 = [''docker'' \<mapsto> [''docker.service'']]"
    using updateAliases_invariant
            [of "''docker''" "''docker.service''" "startState Map.empty" bareHost "[]" Map.empty]
    by (simp add: startState_def)
  have s2: "updateAliases bareHost ''docker'' ''docker'' ?s1 = ?s1"
    using updateAliases_invariant [of "''docker''" "''docker''" ?s1 bareHost "[]" Map.empty]
    by simp
  have s3: "updateAliases bareHost ''docker'' ''docker.service'' ?s1 = ?s1"
    using updateAliases_invariant [of "''docker''" "''docker.service''" ?s1 bareHost "[]" Map.empty]
      t1 by simp
  have t4: "serviceAliases (updateAliases bareHost ''docker'' ''dockerd'' ?s1)
              = [''docker'' \<mapsto> [''docker.service'', ''dockerd'']]"
    using updateAliases_invariant [of "''docker''" "''dockerd''" ?s1 bareHost "[]" Map.empty]
      t1 by simp
  show ?thesis
    using updateAliases_invariant
            [of "''docker''" "''docker''" "startState Map.empty" bareHost
                "[(''docker'', ''docker.service''), (''docker'', ''docker''),
                  (''docker'', ''docker.service''), (''docker'', ''dockerd'')]" Map.empty]
    by (simp add: s2 s3 t4)
qed

subsection \<open>Existence cache\<close>

lemma existsOn_probe:
  "handler_IsExists mgr (NewServiceHandler mgr (defaultServiceConfig mgr n))
     = (\<lparr>IsActive = False, IsEnabled = False, IsExists = existsOn mgr n, Output = []\<rparr>, None)"
  by (simp add: existsOn_def handler_IsExists_def split: prod.splits)

lemma probeAndStore_eq:
  "probeAndStore mgr H n s =
     ((existsOn mgr n, None),
      s\<lparr>probes := probes s @ [n], ticks := Suc (ticks s),
        serviceExistenceCache := (serviceExistenceCache s)
          (n \<mapsto> \<lparr>services = [], expires = clock H (ticks s) + 30 * Second,
                  exists = existsOn mgr n\<rparr>)\<rparr>)"
  by (simp add: probeAndStore_def existsOn_probe timeNow_def Let_def)

text \<open>
  Claim C8. \<^verbatim>\<open>confirmServiceExists\<close> reads the clock when it finds an entry for the
  name. An entry whose expiry is later than that reading is returned as it is: the
  manager is not asked and the cache is not changed. An entry whose expiry has passed
  is deleted, the manager is asked once, and the answer, positive or negative, is
  stored with an expiry 30 seconds after a second reading of the clock, taken when
  storing. With no entry the manager is asked once and the answer is stored in the
  same way. So an answer that was given without asking the manager comes from an entry
  that had not expired.
\<close>

theorem confirmServiceExists_ttl:
  "(\<forall>item. serviceExistenceCache s n = Some item \<and> clock H (ticks s) < expires item \<longrightarrow>
        confirmServiceExists mgr H n s = ((exists item, None), s\<lparr>ticks := Suc (ticks s)\<rparr>))
   \<and> (\<forall>item. serviceExistenceCache s n = Some item \<and> expires item \<le> clock H (ticks s) \<longrightarrow>
        confirmServiceExists mgr H n s =
          ((existsOn mgr n, None),
           s\<lparr>probes := probes s @ [n], ticks := Suc (Suc (ticks s)),
             serviceExistenceCache := (serviceExistenceCache s)
               (n \<mapsto> \<lparr>services = [], expires = clock H (Suc (ticks s)) + 30 * Second,
                       exists = existsOn mgr n\<rparr>)\<rparr>))
   \<and> (serviceExistenceCache s n = None \<longrightarrow>
        confirmServiceExists mgr H n s =
          ((existsOn mgr n, None),
           s\<lparr>probes := probes s @ [n], ticks := Suc (ticks s),
             serviceExistenceCache := (serviceExistenceCache s)
               (n \<mapsto> \<lparr>services = [], expires = clock H (ticks s) + 30 * Second,
                       exists = existsOn mgr n\<rparr>)\<rparr>))
   \<and> (probes (snd (confirmServiceExists mgr H n s)) = probes s \<longrightarrow>
        (\<exists>item. serviceExistenceCache s n = Some item \<and> clock H (ticks s) < expires item
                \<and> fst (confirmServiceExists mgr H n s) = (exists item, None)))
   \<and> 30 * Second = 30000000000"
proof (intro conjI allI impI)
  fix item
  assume "serviceExistenceCache s n = Some item \<and> clock H (ticks s) < expires item"
  then show "confirmServiceExists mgr H n s = ((exists item, None), s\<lparr>ticks := Suc (ticks s)\<rparr>)"
    by (simp add: confirmServiceExists_def timeNow_def)
next
  fix item
  assume "serviceExistenceCache s n = Some item \<and> expires item \<le> clock H (ticks s)"
  then show "confirmServiceExists mgr H n s =
          ((existsOn mgr n, None),
           s\<lparr>probes := probes s @ [n], ticks := Suc (Suc (ticks s)),
             serviceExistenceCache := (serviceExistenceCache s)
               (n \<mapsto> \<lparr>services = [], expires = clock H (Suc (ticks s)) + 30 * Second,
                       exists = existsOn mgr n\<rparr>)\<rparr>)"
    by (simp add: confirmServiceExists_def timeNow_def probeAndStore_eq)
next
  assume "serviceExistenceCache s n = None"
  then show "confirmServiceExists mgr H n s =
          ((existsOn mgr n, None),
           s\<lparr>probes := probes s @ [n], ticks := Suc (ticks s),
             serviceExistenceCache := (serviceExistenceCache s)
               (n \<mapsto> \<lparr>services = [], expires = clock H (ticks s) + 30 * Second,
                       exists = existsOn mgr n\<rparr>)\<rparr>)"
    by (simp add: confirmServiceExists_def probeAndStore_eq)
next
  assume "probes (snd (confirmServiceExists mgr H n s)) = probes s"
  then show "\<exists>item. serviceExistenceCache s n = Some item \<and> clock H (ticks s) < expires item
                \<and> fst (confirmServiceExists mgr H n s) = (exists item, None)"
    by (cases "serviceExistenceCache s n")
       (auto simp: confirmServiceExists_def timeNow_def probeAndStore_eq split: if_splits)
next
  show "30 * Second = 30000000000" by (simp add: Second_def)
qed

lemma docker_exists: "existsOn (newSystemdManager dockerHost) ''docker.service''"
  by (simp add: existsOn_def handler_IsExists_def NewServiceHandler_def defaultServiceConfig_def
      newSystemdManager_def systemd_ServiceExists_def commonServiceExists_def nameFor_def
      systemdBase_def executeCommand_def dockerHost_def bareHost_def HasPrefix_def)

lemma nothing_exists: "\<not> existsOn (newSystemdManager bareHost) n"
  by (simp add: existsOn_def handler_IsExists_def NewServiceHandler_def defaultServiceConfig_def
      newSystemdManager_def systemd_ServiceExists_def commonServiceExists_def nameFor_def
      systemdBase_def executeCommand_def bareHost_def)

lemma dockerHost_clock: "clock dockerHost n = n * Second"
  by (simp add: dockerHost_def bareHost_def)

text \<open>
  The theorem on a host whose clock reads n seconds at the n-th reading and where
  \<^verbatim>\<open>docker.service\<close> exists: a first call with an empty cache; a call that finds a
  negative entry one second before its expiry, and serves it; and a call that finds
  the same entry at its expiry, asks again and stores the new answer for 30 seconds
  more.
\<close>

theorem confirmServiceExists_ttl_witness:
  "fst (confirmServiceExists (newSystemdManager dockerHost) dockerHost ''docker.service''
          (startState Map.empty)) = (True, None)
   \<and> probes (snd (confirmServiceExists (newSystemdManager dockerHost) dockerHost
          ''docker.service'' (startState Map.empty))) = [''docker.service'']
   \<and> map_option expires
        (serviceExistenceCache
           (snd (confirmServiceExists (newSystemdManager dockerHost) dockerHost
                   ''docker.service'' (startState Map.empty))) ''docker.service'')
       = Some (30 * Second)
   \<and> confirmServiceExists (newSystemdManager dockerHost) dockerHost ''docker.service''
        ((startState Map.empty)
           \<lparr>serviceExistenceCache :=
              [''docker.service'' \<mapsto> \<lparr>services = [], expires = 30 * Second, exists = False\<rparr>],
            ticks := 29\<rparr>)
       = ((False, None),
          (startState Map.empty)
            \<lparr>serviceExistenceCache :=
               [''docker.service'' \<mapsto> \<lparr>services = [], expires = 30 * Second, exists = False\<rparr>],
             ticks := 30\<rparr>)
   \<and> fst (confirmServiceExists (newSystemdManager dockerHost) dockerHost ''docker.service''
        ((startState Map.empty)
           \<lparr>serviceExistenceCache :=
              [''docker.service'' \<mapsto> \<lparr>services = [], expires = 30 * Second, exists = False\<rparr>],
            ticks := 30\<rparr>)) = (True, None)
   \<and> map_option expires
        (serviceExistenceCache
           (snd (confirmServiceExists (newSystemdManager dockerHost) dockerHost
                   ''docker.service''
                   ((startState Map.empty)
                      \<lparr>serviceExistenceCache :=
                         [''docker.service'' \<mapsto>
                            \<lparr>services = [], expires = 30 * Second, exists = False\<rparr>],
                       ticks := 30\<rparr>))) ''docker.service'')
       = Some (61 * Second)"
proof -
  let ?m = "newSystemdManager dockerHost"
  let ?old = "\<lparr>services = [], expires = 30 * Second, exists = False\<rparr>"
  let ?sa = "(startState Map.empty)
               \<lparr>serviceExistenceCache := [''docker.service'' \<mapsto> ?old], ticks := 29\<rparr>"
  let ?sb = "(startState Map.empty)
               \<lparr>serviceExistenceCache := [''docker.service'' \<mapsto> ?old], ticks := 30\<rparr>"
  have "serviceExistenceCache (startState Map.empty) ''docker.service'' = None"
    by (simp add: startState_def)
  with confirmServiceExists_ttl [of "startState Map.empty" "''docker.service''" dockerHost ?m]
  have 1: "confirmServiceExists ?m dockerHost ''docker.service'' (startState Map.empty) =
          ((True, None),
           (startState Map.empty)\<lparr>probes := probes (startState Map.empty) @ [''docker.service''],
             ticks := Suc (ticks (startState Map.empty)),
             serviceExistenceCache := (serviceExistenceCache (startState Map.empty))
               (''docker.service'' \<mapsto> \<lparr>services = [],
                  expires = clock dockerHost (ticks (startState Map.empty)) + 30 * Second,
                  exists = True\<rparr>)\<rparr>)"
    using docker_exists by simp
  have "serviceExistenceCache ?sa ''docker.service'' = Some ?old
        \<and> clock dockerHost (ticks ?sa) < expires ?old"
    by (simp add: dockerHost_clock Second_def)
  with confirmServiceExists_ttl [of ?sa "''docker.service''" dockerHost ?m]
  have 2: "confirmServiceExists ?m dockerHost ''docker.service'' ?sa = ((False, None), ?sb)"
    by simp
  have "serviceExistenceCache ?sb ''docker.service'' = Some ?old
        \<and> expires ?old \<le> clock dockerHost (ticks ?sb)"
    by (simp add: dockerHost_clock)
  with confirmServiceExists_ttl [of ?sb "''docker.service''" dockerHost ?m]
  have 3: "confirmServiceExists ?m dockerHost ''docker.service'' ?sb =
          ((True, None),
           ?sb\<lparr>probes := probes ?sb @ [''docker.service''], ticks := Suc (Suc (ticks ?sb)),
             serviceExistenceCache := (serviceExistenceCache ?sb)
               (''docker.service'' \<mapsto> \<lparr>services = [],
                  expires = clock dockerHost (Suc (ticks ?sb)) + 30 * Second,
                  exists = True\<rparr>)\<rparr>)"
    using docker_exists by simp
  show ?thesis
    unfolding 1 2 3 by (simp add: startState_def dockerHost_clock)
qed

subsection \<open>Discovery cache\<close>

lemma findAndStore_eq:
  "findAndStore mgr H keyword s =
     (case FindServices mgr keyword of
        (r, Some e) \<Rightarrow>
          (([], Some (ErrServiceDiscovery keyword e)), s\<lparr>finds := finds s @ [keyword]\<rparr>)
      | (r, None) \<Rightarrow>
          ((r, None),
           s\<lparr>finds := finds s @ [keyword], ticks := Suc (ticks s),
             discoveryCache := (discoveryCache s)
               (keyword \<mapsto> \<lparr>services = r, expires = clock H (ticks s) + 5 * Minute,
                            exists = False\<rparr>)\<rparr>))"
  by (simp add: findAndStore_def timeNow_def Let_def split: prod.splits option.splits)

text \<open>
  Claim C5. When \<^verbatim>\<open>discoverServices\<close> finds an entry for the keyword whose expiry is
  later than the clock reading, it returns the entry's names: \<^verbatim>\<open>FindServices\<close> is not
  called and the cache is not changed. Otherwise it calls \<^verbatim>\<open>FindServices\<close> once. If
  that fails, the error is returned wrapped in \<^verbatim>\<open>ErrServiceDiscovery\<close> and the cache
  holds no entry for the keyword afterwards (an expired one has been deleted, nothing
  is stored). If it succeeds, its result is returned and stored with an expiry five
  minutes after the clock reading taken when storing.
\<close>

theorem discoverServices_cache_policy:
  "(\<forall>item. discoveryCache s keyword = Some item \<and> clock H (ticks s) < expires item \<longrightarrow>
        discoverServices mgr H keyword s = ((services item, None), s\<lparr>ticks := Suc (ticks s)\<rparr>))
   \<and> (\<forall>r e. (\<forall>item. discoveryCache s keyword = Some item \<longrightarrow> expires item \<le> clock H (ticks s))
            \<and> FindServices mgr keyword = (r, Some e) \<longrightarrow>
        fst (discoverServices mgr H keyword s) = ([], Some (ErrServiceDiscovery keyword e))
        \<and> discoveryCache (snd (discoverServices mgr H keyword s))
            = (discoveryCache s)(keyword := None)
        \<and> finds (snd (discoverServices mgr H keyword s)) = finds s @ [keyword])
   \<and> (\<forall>r. (\<forall>item. discoveryCache s keyword = Some item \<longrightarrow> expires item \<le> clock H (ticks s))
          \<and> FindServices mgr keyword = (r, None) \<longrightarrow>
        fst (discoverServices mgr H keyword s) = (r, None)
        \<and> discoveryCache (snd (discoverServices mgr H keyword s))
            = (discoveryCache s)
                (keyword \<mapsto>
                   \<lparr>services = r,
                    expires = clock H (ticks (snd (discoverServices mgr H keyword s)) - 1)
                                + 5 * Minute,
                    exists = False\<rparr>)
        \<and> ticks s < ticks (snd (discoverServices mgr H keyword s))
        \<and> finds (snd (discoverServices mgr H keyword s)) = finds s @ [keyword])
   \<and> 5 * Minute = 300000000000"
proof (intro conjI allI impI)
  fix item
  assume "discoveryCache s keyword = Some item \<and> clock H (ticks s) < expires item"
  then show "discoverServices mgr H keyword s
               = ((services item, None), s\<lparr>ticks := Suc (ticks s)\<rparr>)"
    by (simp add: discoverServices_def timeNow_def)
next
  fix r e
  assume a: "(\<forall>item. discoveryCache s keyword = Some item \<longrightarrow> expires item \<le> clock H (ticks s))
            \<and> FindServices mgr keyword = (r, Some e)"
  then show "fst (discoverServices mgr H keyword s) = ([], Some (ErrServiceDiscovery keyword e))"
    by (cases "discoveryCache s keyword")
       (auto simp: discoverServices_def timeNow_def findAndStore_eq)
  from a show "discoveryCache (snd (discoverServices mgr H keyword s))
            = (discoveryCache s)(keyword := None)"
    by (cases "discoveryCache s keyword")
       (auto simp: discoverServices_def timeNow_def findAndStore_eq)
  from a show "finds (snd (discoverServices mgr H keyword s)) = finds s @ [keyword]"
    by (cases "discoveryCache s keyword")
       (auto simp: discoverServices_def timeNow_def findAndStore_eq)
next
  fix r
  assume a: "(\<forall>item. discoveryCache s keyword = Some item \<longrightarrow> expires item \<le> clock H (ticks s))
          \<and> FindServices mgr keyword = (r, None)"
  then show "fst (discoverServices mgr H keyword s) = (r, None)"
    by (cases "discoveryCache s keyword")
       (auto simp: discoverServices_def timeNow_def findAndStore_eq)
  from a show "discoveryCache (snd (discoverServices mgr H keyword s))
            = (discoveryCache s)
                (keyword \<mapsto>
                   \<lparr>services = r,
                    expires = clock H (ticks (snd (discoverServices mgr H keyword s)) - 1)
                                + 5 * Minute,
                    exists = False\<rparr>)"
    by (cases "discoveryCache s keyword")
       (auto simp: discoverServices_def timeNow_def findAndStore_eq)
  from a show "ticks s < ticks (snd (discoverServices mgr H keyword s))"
    by (cases "discoveryCache s keyword")
       (auto simp: discoverServices_def timeNow_def findAndStore_eq)
  from a show "finds (snd (discoverServices mgr H keyword s)) = finds s @ [keyword]"
    by (cases "discoveryCache s keyword")
       (auto simp: discoverServices_def timeNow_def findAndStore_eq)
next
  show "5 * Minute = 300000000000" by (simp add: Minute_def Second_def)
qed

lemma bare_find:
  "FindServices (newSystemdManager bareHost) keyword =
     ([], Some (Wrapf ''failed to list systemd services''
                  (CommandError
                     [''systemctl'', ''list-unit-files'', ''--type=service'', ''--no-legend''] [])))"
  by (simp add: newSystemdManager_def systemd_FindServices_def executeCommand_def bareHost_def
      systemdBase_def)

lemma docker_find:
  "FindServices (newSystemdManager dockerHost) ''docker'' = ([''docker.service''], None)"
  by (simp add: newSystemdManager_def systemd_FindServices_def executeCommand_def dockerHost_def
      bareHost_def systemdBase_def Lines_def asciiLib_def asciiFields_def asciiSpace_def
      HasPrefix_def)

text \<open>
  The theorem at three states: an entry one second before its expiry is served on a
  host where \<^verbatim>\<open>FindServices\<close> would fail; the same entry at its expiry is deleted, the
  failure of \<^verbatim>\<open>FindServices\<close> is returned and the cache is left empty; on the host with
  \<^verbatim>\<open>docker.service\<close> the result is stored for five minutes.
\<close>

theorem discoverServices_cache_policy_witness:
  "discoverServices (newSystemdManager bareHost) bareHost ''docker''
     ((startState Map.empty)
        \<lparr>discoveryCache :=
           [''docker'' \<mapsto> \<lparr>services = [''docker.service''], expires = 300 * Second,
                            exists = False\<rparr>],
         ticks := 299\<rparr>)
     = (([''docker.service''], None),
        (startState Map.empty)
          \<lparr>discoveryCache :=
             [''docker'' \<mapsto> \<lparr>services = [''docker.service''], expires = 300 * Second,
                              exists = False\<rparr>],
           ticks := 300\<rparr>)
   \<and> fst (discoverServices (newSystemdManager bareHost) bareHost ''docker''
            ((startState Map.empty)
               \<lparr>discoveryCache :=
                  [''docker'' \<mapsto> \<lparr>services = [''docker.service''], expires = 300 * Second,
                                   exists = False\<rparr>],
                ticks := 300\<rparr>))
       = ([], Some (ErrServiceDiscovery ''docker''
                      (Wrapf ''failed to list systemd services''
                         (CommandError [''systemctl'', ''list-unit-files'', ''--type=service'',
                                        ''--no-legend''] []))))
   \<and> discoveryCache
        (snd (discoverServices (newSystemdManager bareHost) bareHost ''docker''
                ((startState Map.empty)
                   \<lparr>discoveryCache :=
                      [''docker'' \<mapsto> \<lparr>services = [''docker.service''], expires = 300 * Second,
                                       exists = False\<rparr>],
                    ticks := 300\<rparr>))) = Map.empty
   \<and> fst (discoverServices (newSystemdManager dockerHost) dockerHost ''docker''
            (startState Map.empty)) = ([''docker.service''], None)
   \<and> discoveryCache
        (snd (discoverServices (newSystemdManager dockerHost) dockerHost ''docker''
                (startState Map.empty)))
       = [''docker'' \<mapsto> \<lparr>services = [''docker.service''], expires = 300 * Second,
                         exists = False\<rparr>]"
proof -
  let ?item = "\<lparr>services = [''docker.service''], expires = 300 * Second, exists = False\<rparr>"
  let ?sa = "(startState Map.empty)\<lparr>discoveryCache := [''docker'' \<mapsto> ?item], ticks := 299\<rparr>"
  let ?sb = "(startState Map.empty)\<lparr>discoveryCache := [''docker'' \<mapsto> ?item], ticks := 300\<rparr>"
  have bclock: "clock bareHost n = n * Second" for n by (simp add: bareHost_def)
  have dclock: "clock dockerHost n = n * Second" for n by (simp add: dockerHost_def bareHost_def)
  have "discoveryCache ?sa ''docker'' = Some ?item \<and> clock bareHost (ticks ?sa) < expires ?item"
    by (simp add: bclock Second_def)
  with discoverServices_cache_policy [of ?sa "''docker''" bareHost "newSystemdManager bareHost"]
  have 1: "discoverServices (newSystemdManager bareHost) bareHost ''docker'' ?sa
             = (([''docker.service''], None), ?sb)"
    by simp
  have "(\<forall>item. discoveryCache ?sb ''docker'' = Some item
                 \<longrightarrow> expires item \<le> clock bareHost (ticks ?sb))
        \<and> FindServices (newSystemdManager bareHost) ''docker'' =
            ([], Some (Wrapf ''failed to list systemd services''
                  (CommandError
                     [''systemctl'', ''list-unit-files'', ''--type=service'', ''--no-legend''] [])))"
    by (simp add: bclock bare_find)
  with discoverServices_cache_policy [of ?sb "''docker''" bareHost "newSystemdManager bareHost"]
  have 2: "fst (discoverServices (newSystemdManager bareHost) bareHost ''docker'' ?sb)
       = ([], Some (ErrServiceDiscovery ''docker''
                      (Wrapf ''failed to list systemd services''
                         (CommandError [''systemctl'', ''list-unit-files'', ''--type=service'',
                                        ''--no-legend''] []))))"
    "discoveryCache (snd (discoverServices (newSystemdManager bareHost) bareHost ''docker'' ?sb))
       = (discoveryCache ?sb)(''docker'' := None)"
    by blast+
  have "(\<forall>item. discoveryCache (startState Map.empty) ''docker'' = Some item
                 \<longrightarrow> expires item \<le> clock dockerHost (ticks (startState Map.empty)))
        \<and> FindServices (newSystemdManager dockerHost) ''docker'' = ([''docker.service''], None)"
    by (simp add: startState_def docker_find)
  with discoverServices_cache_policy
         [of "startState Map.empty" "''docker''" dockerHost "newSystemdManager dockerHost"]
  have 3: "fst (discoverServices (newSystemdManager dockerHost) dockerHost ''docker''
                 (startState Map.empty)) = ([''docker.service''], None)"
    "discoveryCache (snd (discoverServices (newSystemdManager dockerHost) dockerHost ''docker''
                 (startState Map.empty)))
       = (discoveryCache (startState Map.empty))
           (''docker'' \<mapsto>
              \<lparr>services = [''docker.service''],
               expires = clock dockerHost
                           (ticks (snd (discoverServices (newSystemdManager dockerHost) dockerHost
                                          ''docker'' (startState Map.empty))) - 1)
                         + 5 * Minute,
               exists = False\<rparr>)"
    by blast+
  have t: "ticks (snd (discoverServices (newSystemdManager dockerHost) dockerHost ''docker''
                 (startState Map.empty))) = 1"
    by (simp add: discoverServices_def startState_def findAndStore_eq docker_find)
  show ?thesis
    unfolding 1 2 3 t by (simp add: startState_def dclock Minute_def)
qed

subsection \<open>Status parsing\<close>

lemma manager_ParseStatus:
  "ParseStatus (newSysvinitManager H) = sysvinit_ParseStatus H"
  "ParseStatus (newSystemdManager H) = systemd_ParseStatus H"
  "ParseStatus (newOpenrcManager H) = openrc_ParseStatus H"
  by (simp_all add: newSysvinitManager_def newSystemdManager_def newOpenrcManager_def)

text \<open>
  Claim C6, as amended. Each manager has its own markers, and the SysV manager one for
  each kind of status. For every raw output: if it contains \<^verbatim>\<open>not found\<close>, the SysV
  manager's \<^verbatim>\<open>ParseStatus\<close> for the kind \<^verbatim>\<open>active\<close> yields false and no error; if it
  contains \<^verbatim>\<open>no such file or directory\<close>, the SysV manager's \<^verbatim>\<open>ParseStatus\<close> for the
  kind \<^verbatim>\<open>enabled\<close> yields false and no error; if it contains \<^verbatim>\<open>could not be found\<close>,
  the systemd manager's \<^verbatim>\<open>ParseStatus\<close> yields false and no error for every kind; if
  it contains \<^verbatim>\<open>does not exist\<close>, the OpenRC manager's \<^verbatim>\<open>ParseStatus\<close> yields false
  and no error for every kind.
\<close>

theorem ParseStatus_not_found_markers:
  "(sublist ''not found'' raw \<longrightarrow>
      ParseStatus (newSysvinitManager H) raw cfg ''active'' = (False, None))
   \<and> (sublist ''no such file or directory'' raw \<longrightarrow>
        ParseStatus (newSysvinitManager H) raw cfg ''enabled'' = (False, None))
   \<and> (sublist ''could not be found'' raw \<longrightarrow>
        ParseStatus (newSystemdManager H) raw cfg statusType = (False, None))
   \<and> (sublist ''does not exist'' raw \<longrightarrow>
        ParseStatus (newOpenrcManager H) raw cfg statusType = (False, None))"
  by (simp add: manager_ParseStatus sysvinit_ParseStatus_def systemd_ParseStatus_def
      openrc_ParseStatus_def Contains_iff)

text \<open>The theorem at one output for each of its four parts.\<close>

theorem ParseStatus_not_found_markers_witness:
  "ParseStatus (newSysvinitManager bareHost) ''docker: unrecognized service, not found''
     \<lparr>ServiceName = [''sysvinit'' \<mapsto> ''docker'']\<rparr> ''active'' = (False, None)
   \<and> ParseStatus (newSysvinitManager bareHost)
        ''ls: cannot access /etc/rc*.d/S*docker: no such file or directory''
        \<lparr>ServiceName = [''sysvinit'' \<mapsto> ''docker'']\<rparr> ''enabled'' = (False, None)
   \<and> ParseStatus (newSystemdManager bareHost) ''Unit docker.service could not be found.''
        \<lparr>ServiceName = [''systemd'' \<mapsto> ''docker.service'']\<rparr> ''active'' = (False, None)
   \<and> ParseStatus (newOpenrcManager bareHost) ''rc-service: service docker does not exist''
        \<lparr>ServiceName = [''openrc'' \<mapsto> ''docker'']\<rparr> ''enabled'' = (False, None)"
proof -
  have m: "sublist ''not found'' ''docker: unrecognized service, not found''"
    "sublist ''no such file or directory''
       ''ls: cannot access /etc/rc*.d/S*docker: no such file or directory''"
    "sublist ''could not be found'' ''Unit docker.service could not be found.''"
    "sublist ''does not exist'' ''rc-service: service docker does not exist''"
    by (simp_all add: Contains_iff [symmetric] HasPrefix_def)
  note T = ParseStatus_not_found_markers [where H = bareHost]
  show ?thesis
    using T [where raw = "''docker: unrecognized service, not found''"
               and cfg = "\<lparr>ServiceName = [''sysvinit'' \<mapsto> ''docker'']\<rparr>"]
      T [where raw = "''ls: cannot access /etc/rc*.d/S*docker: no such file or directory''"
           and cfg = "\<lparr>ServiceName = [''sysvinit'' \<mapsto> ''docker'']\<rparr>"]
      T [where raw = "''Unit docker.service could not be found.''"
           and cfg = "\<lparr>ServiceName = [''systemd'' \<mapsto> ''docker.service'']\<rparr>"
           and statusType = "''active''"]
      T [where raw = "''rc-service: service docker does not exist''"
           and cfg = "\<lparr>ServiceName = [''openrc'' \<mapsto> ''docker'']\<rparr>"
           and statusType = "''enabled''"]
      m
    by blast
qed

text \<open>
  Claim C6 as it is written asks for both answers to be false, without an error,
  whenever the output holds one of the two SysV markers. For the kind \<^verbatim>\<open>enabled\<close> the
  code looks for \<^verbatim>\<open>no such file or directory\<close> only, and takes any other output that
  is not blank for "enabled": an output with \<^verbatim>\<open>not found\<close> yields true. For the kind
  \<^verbatim>\<open>active\<close> the code looks for \<^verbatim>\<open>not found\<close> only: an output with
  \<^verbatim>\<open>no such file or directory\<close> and neither \<^verbatim>\<open>running\<close> nor \<^verbatim>\<open>active\<close> leaves the
  \<^verbatim>\<open>switch\<close> and meets the final \<^verbatim>\<open>return\<close>, which reports an error.
\<close>

theorem ParseStatus_sysvinit_counterexample:
  "Contains ''docker: unrecognized service, not found'' ''not found''
   \<and> ParseStatus (newSysvinitManager bareHost) ''docker: unrecognized service, not found''
        \<lparr>ServiceName = [''sysvinit'' \<mapsto> ''docker'']\<rparr> ''enabled'' = (True, None)
   \<and> Contains ''cat: /run/docker.pid: no such file or directory'' ''no such file''
   \<and> ParseStatus (newSysvinitManager bareHost)
        ''cat: /run/docker.pid: no such file or directory''
        \<lparr>ServiceName = [''sysvinit'' \<mapsto> ''docker'']\<rparr> ''active''
       = (False, Some (Errorf ''unsupported status type: active''))"
  by (simp add: manager_ParseStatus sysvinit_ParseStatus_def HasPrefix_def bareHost_def
      asciiLib_def asciiTrimSpace_def asciiSpace_def)

subsection \<open>What each step leaves unchanged\<close>

lemma confirm_coherent:
  assumes "coherent mgr s"
  shows "fst (confirmServiceExists mgr H n s) = (existsOn mgr n, None)"
    and "coherent mgr (snd (confirmServiceExists mgr H n s))"
  using assms
  by (auto simp: confirmServiceExists_def probeAndStore_eq timeNow_def coherent_def
      split: option.splits)


lemma keepConfirmed_coherent:
  "coherent mgr s \<Longrightarrow>
     fst (keepConfirmed mgr H aliases s) = filter (existsOn mgr) aliases
     \<and> coherent mgr (snd (keepConfirmed mgr H aliases s))"
proof (induction aliases arbitrary: s)
  case Nil
  then show ?case by simp
next
  case (Cons a aliases)
  from confirm_coherent [OF Cons.prems, of H a]
  obtain s1 where c: "confirmServiceExists mgr H a s = ((existsOn mgr a, None), s1)"
    and s1: "coherent mgr s1"
    by (cases "confirmServiceExists mgr H a s") auto
  from Cons.IH [OF s1] show ?case
    by (auto simp: c split: prod.splits)
qed


lemma probeAll_coherent: "coherent mgr s \<Longrightarrow> coherent mgr (probeAll mgr H cands s)"
  by (induction cands arbitrary: s) (auto simp: confirm_coherent)


lemma discoverServices_frame:
  "serviceAliases (snd (discoverServices mgr H keyword s)) = serviceAliases s"
  "serviceExistenceCache (snd (discoverServices mgr H keyword s)) = serviceExistenceCache s"
  by (auto simp: discoverServices_def findAndStore_eq timeNow_def split: option.splits prod.splits)

lemma discoverServices_coherent:
  "coherent mgr s \<Longrightarrow> coherent mgr (snd (discoverServices mgr H keyword s))"
  by (simp add: coherent_def discoverServices_frame)


lemma discoverAndSelectService_coherent:
  "coherent mgr s \<Longrightarrow> coherent mgr (snd (discoverAndSelectService mgr H keyword s))"
  by (auto simp: discoverAndSelectService_def Let_def split_beta discoverServices_coherent
      confirm_coherent split: option.splits)

lemma getAliases_table:
  "serviceAliases (snd (getAliases keyword s)) =
     (case serviceAliases s keyword of
        None \<Rightarrow> (serviceAliases s)(keyword \<mapsto> [])
      | Some as \<Rightarrow> serviceAliases s)"
  "serviceExistenceCache (snd (getAliases keyword s)) = serviceExistenceCache s"
  by (auto simp: getAliases_def loadOrStoreEmpty_def Let_def split: option.splits)


subsection \<open>Resolution failure\<close>

text \<open>The call fails exactly when its three steps fail, each from the state the last left.\<close>

lemma smartServiceName_fails_iff:
  "snd (fst (smartServiceName mgr H sched keyword s)) \<noteq> None \<longleftrightarrow>
     (let processedName = handleServiceNaming H mgr keyword;
          ((confirmed, _), s1) = confirmServiceExists mgr H processedName s;
          (aliases, s2) = getAliases keyword s1;
          ((cand, err), s3) =
            validateCandidatesConcurrently mgr H sched (processedName # aliases) s2;
          ((discoveredName, err2), s4) = discoverAndSelectService mgr H keyword s3
      in \<not> confirmed \<and> err \<noteq> None \<and> err2 \<noteq> None)"
  by (auto simp: smartServiceName_def Let_def split_beta)

lemma keepConfirmed_subset: "set (fst (keepConfirmed mgr H aliases s)) \<subseteq> set aliases"
  by (induction aliases arbitrary: s) (auto simp: split_beta Let_def)



text \<open>Coherence is an invariant of the resolver.\<close>

lemma updateAliases_cache:
  "serviceExistenceCache (updateAliases H keyword alias s) = serviceExistenceCache s"
  by (auto simp: updateAliases_def loadOrStoreEmpty_def scheduleSave_def split: option.splits)

lemma cleanup_coherent:
  assumes "coherent mgr s"
  shows "coherent mgr (cleanupKeywordAliases mgr H keyword s)"
proof (cases "serviceAliases s keyword")
  case None
  with assms show ?thesis by (simp add: cleanupKeywordAliases_def scheduleSave_def coherent_def)
next
  case (Some aliases)
  from keepConfirmed_coherent [OF assms, of H aliases]
  have "coherent mgr (snd (keepConfirmed mgr H aliases s))" by simp
  then show ?thesis
    by (auto simp: cleanupKeywordAliases_def scheduleSave_def coherent_def Some split_beta)
qed

lemma smartServiceName_coherent:
  assumes "coherent mgr s"
  shows "coherent mgr (snd (smartServiceName mgr H sched keyword s))"
proof -
  let ?p = "handleServiceNaming H mgr keyword"
  let ?s1 = "snd (confirmServiceExists mgr H ?p s)"
  let ?s2 = "snd (getAliases keyword ?s1)"
  let ?s3 = "snd (validateCandidatesConcurrently mgr H sched
                    (?p # fst (getAliases keyword ?s1)) ?s2)"
  let ?s4 = "snd (discoverAndSelectService mgr H keyword ?s3)"
  have 1: "coherent mgr ?s1" using assms by (rule confirm_coherent(2))
  then have 2: "coherent mgr ?s2" by (simp add: coherent_def getAliases_table(2))
  then have 3: "coherent mgr ?s3"
    by (simp add: validateCandidatesConcurrently_def probeAll_coherent)
  then have 4: "coherent mgr ?s4" by (rule discoverAndSelectService_coherent)
  have up: "coherent mgr (updateAliases H keyword a t)" if "coherent mgr t" for a t
    using that by (simp add: coherent_def updateAliases_cache)
  show ?thesis
    using up [OF 1] up [OF 3] up [OF 4] cleanup_coherent [OF 4]
    by (simp add: smartServiceName_def Let_def split_beta)
qed



lemmas eval_defs =
  smartServiceName_def handleServiceNaming_def confirmServiceExists_def
  probeAndStore_def handler_IsExists_def NewServiceHandler_def defaultServiceConfig_def
  newSystemdManager_def systemd_ServiceExists_def commonServiceExists_def nameFor_def
  systemdBase_def executeCommand_def bareHost_def dockerHost_def asciiLib_def asciiToLower_def
  lowerByte_def asciiFields_def asciiSpace_def Lines_def HasPrefix_def
  HasSuffix_def TrimSuffix_def startState_def timeNow_def getAliases_def loadOrStoreEmpty_def
  loadPredefinedAliases_def validateCandidatesConcurrently_def discoverAndSelectService_def
  discoverServices_def findAndStore_def systemd_FindServices_def Let_def


subsection \<open>The facade\<close>

lemmas facade_defs =
  Start_def Stop_def Restart_def Enable_def Disable_def DefaultHandler_def wrapFailure_def
  StartService_def StopService_def RestartService_def EnableService_def DisableService_def
  ExecuteAction_def GetServiceName_def ManagerName_def

text \<open>
  When the keyword does not resolve, \<^verbatim>\<open>DefaultHandler\<close> returns a \<^verbatim>\<open>nil\<close> handler and
  an error. \<^verbatim>\<open>Stop\<close>, \<^verbatim>\<open>Restart\<close> and \<^verbatim>\<open>Enable\<close> check the error and return one;
  \<^verbatim>\<open>Start\<close> and \<^verbatim>\<open>Disable\<close> drop it and call a method of the \<^verbatim>\<open>nil\<close> handler, which
  reads \<^verbatim>\<open>h.manager\<close> in \<^verbatim>\<open>ManagerName\<close> and panics.
\<close>

lemma facade_unresolved:
  assumes "snd (fst (smartServiceName mgr H sched serviceName s)) \<noteq> None"
  shows "fst (Start mgr H sched serviceName s) = Panicked"
    and "fst (Disable mgr H sched serviceName s) = Panicked"
    and "fst (Stop mgr H sched serviceName s)
           = Returned (Some (Errorf (serviceName @ '' is not exist'')))"
    and "fst (Restart mgr H sched serviceName s)
           = Returned (Some (Errorf (serviceName @ '' is not exist'')))"
    and "fst (Enable mgr H sched serviceName s)
           = Returned (Some (Errorf (serviceName @ '' is not exist'')))"
  using assms by (auto simp: facade_defs split_beta)

text \<open>
  Claim C9 asks that \<^verbatim>\<open>Start\<close> and \<^verbatim>\<open>Disable\<close> return an error when the keyword does
  not resolve. On the bare host the keyword \<^verbatim>\<open>nonexistent-xyz\<close> does not resolve: the
  probe of \<^verbatim>\<open>nonexistent-xyz.service\<close> fails, the validation of that one candidate
  ends with \<^verbatim>\<open>ErrServiceNotFound\<close> and the discovery fails. \<^verbatim>\<open>Start\<close> and \<^verbatim>\<open>Disable\<close>
  panic there; \<^verbatim>\<open>Stop\<close>, \<^verbatim>\<open>Restart\<close> and \<^verbatim>\<open>Enable\<close> return an error.
\<close>

theorem Start_Disable_panic_when_unresolved:
  "fst (smartServiceName (newSystemdManager bareHost) bareHost
          \<lparr>finished = [''nonexistent-xyz.service''], received = ([], Some ErrServiceNotFound)\<rparr>
          ''nonexistent-xyz'' (startState Map.empty)) = ([], Some ErrServiceNotFound)
   \<and> fst (Start (newSystemdManager bareHost) bareHost
            \<lparr>finished = [''nonexistent-xyz.service''], received = ([], Some ErrServiceNotFound)\<rparr>
            ''nonexistent-xyz'' (startState Map.empty)) = Panicked
   \<and> fst (Disable (newSystemdManager bareHost) bareHost
            \<lparr>finished = [''nonexistent-xyz.service''], received = ([], Some ErrServiceNotFound)\<rparr>
            ''nonexistent-xyz'' (startState Map.empty)) = Panicked
   \<and> fst (Stop (newSystemdManager bareHost) bareHost
            \<lparr>finished = [''nonexistent-xyz.service''], received = ([], Some ErrServiceNotFound)\<rparr>
            ''nonexistent-xyz'' (startState Map.empty))
       = Returned (Some (Errorf ''nonexistent-xyz is not exist''))
   \<and> fst (Restart (newSystemdManager bareHost) bareHost
            \<lparr>finished = [''nonexistent-xyz.service''], received = ([], Some ErrServiceNotFound)\<rparr>
            ''nonexistent-xyz'' (startState Map.empty))
       = Returned (Some (Errorf ''nonexistent-xyz is not exist''))
   \<and> fst (Enable (newSystemdManager bareHost) bareHost
            \<lparr>finished = [''nonexistent-xyz.service''], received = ([], Some ErrServiceNotFound)\<rparr>
            ''nonexistent-xyz'' (startState Map.empty))
       = Returned (Some (Errorf ''nonexistent-xyz is not exist''))"
proof -
  let ?done = "\<lparr>finished = [''nonexistent-xyz.service''],
                received = ([], Some ErrServiceNotFound)\<rparr>"
  have r: "fst (smartServiceName (newSystemdManager bareHost) bareHost ?done
                  ''nonexistent-xyz'' (startState Map.empty)) = ([], Some ErrServiceNotFound)"
    by (simp add: eval_defs split: prod.splits)
  then have "snd (fst (smartServiceName (newSystemdManager bareHost) bareHost ?done
                  ''nonexistent-xyz'' (startState Map.empty))) \<noteq> None"
    by simp
  from facade_unresolved [OF this] r show ?thesis by simp
qed

text \<open>
  Where the keyword resolves, \<^verbatim>\<open>Start\<close> returns: here with the error of the command,
  which fails on the example host.
\<close>

lemma facade_resolved_docker:
  "fst (Start (newSystemdManager dockerHost) dockerHost
            \<lparr>finished = [], received = ([], Some ErrServiceNotFound)\<rparr>
            ''docker'' (startState Map.empty))
     = Returned (Some (Wrapf ''start failed'' (Wrapf ''start operation failed''
          (CommandError [''systemctl'', ''start'', ''docker.service''] []))))"
  by (simp add: facade_defs eval_defs executeAction_def systemd_BuildCommand_def
      buildBaseCommand_def updateAliases_def scheduleSave_def split: prod.splits)

subsection \<open>Persisted aliases\<close>

text \<open>
  What the loading loop keeps, on a coherent cache and whatever the order in which Go
  ranges over the decoded table: for each keyword the aliases that exist, and no entry
  for a keyword left with none.
\<close>

lemma loadLoop_valid:
  "coherent mgr s \<Longrightarrow> distinct order \<Longrightarrow>
     map_of (fst (loadLoop mgr H rawAliases order s)) k
       = (if k \<in> set order then purged mgr (rawAliases k) else None)
     \<and> coherent mgr (snd (loadLoop mgr H rawAliases order s))"
proof (induction order arbitrary: s)
  case Nil
  then show ?case by simp
next
  case (Cons key keys)
  show ?case
  proof (cases "rawAliases key")
    case None
    with Cons.IH [of s] Cons.prems show ?thesis by (auto simp: purged_def)
  next
    case (Some aliases)
    obtain valid s1 where k: "keepConfirmed mgr H aliases s = (valid, s1)"
      by (cases "keepConfirmed mgr H aliases s") auto
    from keepConfirmed_coherent [OF Cons.prems(1), of H aliases] k
    have v: "valid = filter (existsOn mgr) aliases" and s1: "coherent mgr s1" by simp_all
    from Cons.IH [OF s1] Cons.prems(2) show ?thesis
      by (auto simp: Some k v purged_def split_beta)
  qed
qed

lemma loadAliasesFromConfig_keeps_valid:
  assumes "coherent mgr s" and "aliasFile s \<noteq> []"
    and "files s (aliasFile s) = Some rawAliases"
    and "distinct order" and "set order = dom rawAliases"
  shows "map_of (fst (loadAliasesFromConfig mgr H order s)) k = purged mgr (rawAliases k)"
proof -
  have "k \<notin> set order \<Longrightarrow> rawAliases k = None" using assms(5) by auto
  then show ?thesis
    using loadLoop_valid [OF assms(1,4), of H rawAliases k] assms(2,3)
    by (auto simp: loadAliasesFromConfig_def readFile_def purged_def)
qed

text \<open>
  Within one process, once \<^verbatim>\<open>scheduleSave\<close> has set \<^verbatim>\<open>aliasFile\<close>: the timer writes the
  whole table, and loading it back gives the table without the aliases that do not
  exist.
\<close>

lemma save_then_reload:
  assumes "coherent mgr s" and "aliasFilePath H \<noteq> []"
    and "canWrite H (aliasFilePath H @ ''.tmp'')"
    and "canRename H (aliasFilePath H @ ''.tmp'') (aliasFilePath H)"
    and "jsonRoundTrip (lib H) (serviceAliases s) = serviceAliases s"
    and "distinct order" and "set order = dom (serviceAliases s)"
  shows "map_of (fst (loadAliasesFromConfig mgr H order (saveTimerFires H (scheduleSave H s)))) k
           = purged mgr (serviceAliases s k)"
proof -
  let ?s1 = "saveTimerFires H (scheduleSave H s)"
  have 1: "coherent mgr ?s1"
    using assms(1) by (simp add: coherent_def saveTimerFires_def scheduleSave_def Let_def)
  have 2: "aliasFile ?s1 = aliasFilePath H"
    by (simp add: saveTimerFires_def scheduleSave_def Let_def)
  have 3: "files ?s1 (aliasFile ?s1) = Some (serviceAliases s)"
    using assms(3,4,5) by (simp add: saveTimerFires_def scheduleSave_def Let_def)
  show ?thesis
    using loadAliasesFromConfig_keeps_valid [OF 1 _ 3 assms(6,7)] 2 assms(2) by simp
qed

text \<open>
  Claim C7 asks that a process that starts loads the persisted table. The variable
  \<^verbatim>\<open>aliasFile\<close> is assigned in \<^verbatim>\<open>scheduleSave\<close> only, so a process that has just
  started reads the file of the empty path, which fails, and loads nothing. Here a
  first process learns the alias \<^verbatim>\<open>docker.service\<close> for \<^verbatim>\<open>docker\<close> and its timer writes
  the table; \<^verbatim>\<open>docker.service\<close> still exists; a second process starts on these files:
  \<^verbatim>\<open>loadAliasesFromConfig\<close> returns no entry and \<^verbatim>\<open>InitializeServiceDiscovery\<close> leaves
  the alias table empty. With \<^verbatim>\<open>aliasFile\<close> set to the path, the same call on the same
  files returns the entry.
\<close>

theorem loadAliasesFromConfig_at_start_reads_nothing:
  "files (saveTimerFires dockerHost
            (updateAliases dockerHost ''docker'' ''docker.service'' (startState Map.empty)))
     = [''/opt/1panel/resource/svcaliases.json'' \<mapsto> [''docker'' \<mapsto> [''docker.service'']]]
   \<and> existsOn (newSystemdManager dockerHost) ''docker.service''
   \<and> loadAliasesFromConfig (newSystemdManager dockerHost) dockerHost [''docker'']
        (startState
           [''/opt/1panel/resource/svcaliases.json'' \<mapsto> [''docker'' \<mapsto> [''docker.service'']]])
       = ([], startState
                [''/opt/1panel/resource/svcaliases.json'' \<mapsto>
                   [''docker'' \<mapsto> [''docker.service'']]])
   \<and> serviceAliases
        (InitializeServiceDiscovery (newSystemdManager dockerHost) dockerHost [''docker'']
           (startState
              [''/opt/1panel/resource/svcaliases.json'' \<mapsto>
                 [''docker'' \<mapsto> [''docker.service'']]]))
       = Map.empty
   \<and> fst (loadAliasesFromConfig (newSystemdManager dockerHost) dockerHost [''docker'']
            ((startState
                [''/opt/1panel/resource/svcaliases.json'' \<mapsto>
                   [''docker'' \<mapsto> [''docker.service'']]])
               \<lparr>aliasFile := ''/opt/1panel/resource/svcaliases.json''\<rparr>))
       = [(''docker'', [''docker.service''])]"
proof -
  have 1: "files (saveTimerFires dockerHost
            (updateAliases dockerHost ''docker'' ''docker.service'' (startState Map.empty)))
     = [''/opt/1panel/resource/svcaliases.json'' \<mapsto> [''docker'' \<mapsto> [''docker.service'']]]"
    by (simp add: saveTimerFires_def updateAliases_def loadOrStoreEmpty_def scheduleSave_def
        startState_def dockerHost_def bareHost_def asciiLib_def Let_def)
  let ?fs = "[''/opt/1panel/resource/svcaliases.json'' \<mapsto> [''docker'' \<mapsto> [''docker.service'']]]"
  have 2: "loadAliasesFromConfig (newSystemdManager dockerHost) dockerHost [''docker'']
             (startState ?fs) = ([], startState ?fs)"
    by (simp add: loadAliasesFromConfig_def readFile_def startState_def)
  have 3: "serviceAliases
        (InitializeServiceDiscovery (newSystemdManager dockerHost) dockerHost [''docker'']
           (startState ?fs)) = Map.empty"
    by (simp add: InitializeServiceDiscovery_def 2) (simp add: startState_def)
  have 4: "fst (loadAliasesFromConfig (newSystemdManager dockerHost) dockerHost [''docker'']
            ((startState ?fs)\<lparr>aliasFile := ''/opt/1panel/resource/svcaliases.json''\<rparr>))
       = [(''docker'', [''docker.service''])]"
    by (simp add: loadAliasesFromConfig_def readFile_def eval_defs split: prod.splits)
  from 1 2 3 4 docker_exists show ?thesis by simp
qed

end
